theory Spec2Isabelle
  imports Complex_Main "HOL-Library.Multiset"
begin

section \<open>Data model of the Arnoldi eigen solver\<close>

text \<open>
  The solver is the C++ class template \<^verbatim>\<open>GenEigsSolver<Scalar, SelectionRule, OpType>\<close>.
  \<^verbatim>\<open>Scalar\<close> is modelled by the reals (exact arithmetic), \<^verbatim>\<open>std::complex<Scalar>\<close> by
  \<^typ>\<open>complex\<close>, the C++ \<^verbatim>\<open>int\<close> by \<^typ>\<open>int\<close> (all integers of the solver are bounded
  by the matrix dimension). A vector is the list of its coefficients, a matrix the list
  of its columns (the storage order of the linear algebra library).
\<close>

type_synonym vec = "real list"
type_synonym mat = "real list list"
type_synonym cvec = "complex list"
type_synonym cmat = "complex list list"

datatype error = IndexOutOfRange | InvalidArgument | LogicError

record solver =
  dim_n :: int
  nev :: int
  ncv :: int
  nmatop :: int
  niter :: int
  fac_V :: mat
  fac_H :: mat
  fac_f :: vec
  ritz_val :: cvec
  ritz_vec :: cmat
  ritz_conv :: "bool list"
  prec :: real

text \<open>
  Reading coefficient \<open>i\<close> of a vector, \<^verbatim>\<open>v[i]\<close>. The index is a C++ \<^verbatim>\<open>int\<close>; outside
  \<open>0 \<le> i < size\<close> the library's index assertion fails (and without assertions the read is
  undefined), which is the error value here.
\<close>

definition vec_at :: "'a list \<Rightarrow> int \<Rightarrow> error + 'a" where
  "vec_at v i = (if 0 \<le> i \<and> i < int (length v) then Inr (v ! nat i) else Inl IndexOutOfRange)"

text \<open>Integer division of C++: the quotient is truncated towards zero.\<close>

definition cpp_div :: "int \<Rightarrow> int \<Rightarrow> int" where
  "cpp_div a b = sgn a * sgn b * (\<bar>a\<bar> div \<bar>b\<bar>)"

definition is_complex :: "complex \<Rightarrow> real \<Rightarrow> bool" where
  "is_complex v eps = (\<bar>Im v\<bar> > eps)"

definition is_conj :: "complex \<Rightarrow> complex \<Rightarrow> real \<Rightarrow> bool" where
  "is_conj v1 v2 eps = (cmod (v1 - cnj v2) < eps)"

text \<open>
  The test \<^verbatim>\<open>is_complex(ritz_val[i], prec) && is_conj(ritz_val[i], ritz_val[i + 1], prec)\<close>,
  which \<^verbatim>\<open>nev_adjusted\<close> and \<^verbatim>\<open>restart\<close> both write out. The operator \<^verbatim>\<open>&&\<close> evaluates its
  right operand, and with it \<^verbatim>\<open>ritz_val[i + 1]\<close>, only when the left one is true.
\<close>

definition complex_and_conj :: "solver \<Rightarrow> int \<Rightarrow> error + bool" where
  "complex_and_conj st i =
     (case vec_at (ritz_val st) i of
        Inl e \<Rightarrow> Inl e
      | Inr v \<Rightarrow>
          if is_complex v (prec st)
          then (case vec_at (ritz_val st) (i + 1) of
                  Inl e \<Rightarrow> Inl e
                | Inr w \<Rightarrow> Inr (is_conj v w (prec st)))
          else Inr False)"

subsection \<open>The adjusted number of retained Ritz values\<close>

definition nev_adjusted :: "solver \<Rightarrow> int \<Rightarrow> error + int" where
  "nev_adjusted st nconv =
     (case complex_and_conj st (nev st - 1) of
        Inl e \<Rightarrow> Inl e
      | Inr b1 \<Rightarrow>
          let nev_new = (if b1 then nev st + 1 else nev st);
              nev_new = nev_new + min nconv (cpp_div (ncv st - nev_new) 2);
              nev_new = (if nev_new = 1 \<and> ncv st \<ge> 6 then cpp_div (ncv st) 2
                         else if nev_new = 1 \<and> ncv st > 3 then 2
                         else nev_new);
              nev_new = (if nev_new > ncv st - 2 then ncv st - 2 else nev_new)
          in (case complex_and_conj st (nev_new - 1) of
                Inl e \<Rightarrow> Inl e
              | Inr b2 \<Rightarrow> Inr (if b2 then nev_new + 1 else nev_new)))"

text \<open>
  The restart-width heuristic as the specification words it, in six steps, on the sorted
  Ritz values \<open>\<theta>\<close>, the number \<open>k\<close> of wanted values and the subspace size \<open>m\<close>.
\<close>

definition conj_pair_splits :: "real \<Rightarrow> cvec \<Rightarrow> int \<Rightarrow> bool" where
  "conj_pair_splits eps \<theta> k =
     (is_complex (\<theta> ! nat (k - 1)) eps \<and> is_conj (\<theta> ! nat (k - 1)) (\<theta> ! nat k) eps)"

definition adjust_k :: "real \<Rightarrow> cvec \<Rightarrow> int \<Rightarrow> int \<Rightarrow> int \<Rightarrow> int" where
  "adjust_k eps \<theta> k m nconv =
     (let k1 = k;
          k2 = (if conj_pair_splits eps \<theta> k1 then k1 + 1 else k1);
          k3 = k2 + min nconv (\<lfloor>real_of_int (m - k2) / 2\<rfloor>);
          k4 = (if k3 = 1 then (if m \<ge> 6 then m div 2 else if m > 3 then 2 else k3) else k3);
          k5 = min k4 (m - 2)
      in if conj_pair_splits eps \<theta> k5 then k5 + 1 else k5)"

subsection \<open>Vectors and matrices\<close>

definition dot :: "vec \<Rightarrow> vec \<Rightarrow> real" where
  "dot x y = sum_list (map2 (*) x y)"

definition vec_norm :: "vec \<Rightarrow> real" where
  "vec_norm x = sqrt (dot x x)"

definition vec_scale :: "real \<Rightarrow> vec \<Rightarrow> vec" where
  "vec_scale a x = map (\<lambda>xi. xi * a) x"

definition vec_add :: "vec \<Rightarrow> vec \<Rightarrow> vec" where
  "vec_add x y = map2 (+) x y"

definition vec_sub :: "vec \<Rightarrow> vec \<Rightarrow> vec" where
  "vec_sub x y = map2 (-) x y"

definition mat_rows :: "mat \<Rightarrow> nat" where
  "mat_rows M = (case M of [] \<Rightarrow> 0 | c # _ \<Rightarrow> length c)"

text \<open>Coefficient \<open>(i, j)\<close>: row \<open>i\<close> of column \<open>j\<close>.\<close>

definition mat_get :: "mat \<Rightarrow> int \<Rightarrow> int \<Rightarrow> real" where
  "mat_get M i j = M ! nat j ! nat i"

definition mat_put :: "mat \<Rightarrow> int \<Rightarrow> int \<Rightarrow> real \<Rightarrow> mat" where
  "mat_put M i j x = M[nat j := (M ! nat j)[nat i := x]]"

text \<open>The product \<open>M x\<close>, the product \<open>A B\<close>, the transpose, and \<open>M\<^sup>T w\<close>.\<close>

definition mat_vec :: "mat \<Rightarrow> vec \<Rightarrow> vec" where
  "mat_vec M x = map (\<lambda>i. sum_list (map2 (\<lambda>c xj. c ! i * xj) M x)) [0..<mat_rows M]"

definition mat_mul :: "mat \<Rightarrow> mat \<Rightarrow> mat" where
  "mat_mul A B = map (mat_vec A) B"

definition mat_transpose :: "mat \<Rightarrow> mat" where
  "mat_transpose M = map (\<lambda>i. map (\<lambda>c. c ! i) M) [0..<mat_rows M]"

definition tmat_vec :: "mat \<Rightarrow> vec \<Rightarrow> vec" where
  "tmat_vec M w = map (\<lambda>c. dot c w) M"

text \<open>\<^verbatim>\<open>M.diagonal().array() += a\<close>\<close>

definition add_diag :: "mat \<Rightarrow> real \<Rightarrow> mat" where
  "add_diag M a = map (\<lambda>j. (M ! j)[j := M ! j ! j + a]) [0..<length M]"

text \<open>\<^verbatim>\<open>M.block(r, c, nr, nc).setZero()\<close>\<close>

definition block_setZero :: "mat \<Rightarrow> int \<Rightarrow> int \<Rightarrow> int \<Rightarrow> int \<Rightarrow> mat" where
  "block_setZero M r c nr nc =
     fold (\<lambda>j M. fold (\<lambda>i M. mat_put M i j 0) [r..r + nr - 1] M) [c..c + nc - 1] M"

text \<open>
  The loops \<^verbatim>\<open>for(i = 0; i < n; i++) dst[i] = src[i]\<close> and the assignment to
  \<^verbatim>\<open>dst.head(n)\<close>.
\<close>

definition assign_head :: "nat \<Rightarrow> 'a list \<Rightarrow> 'a list \<Rightarrow> 'a list" where
  "assign_head n src dst = fold (\<lambda>i d. d[i := src ! i]) [0..<n] dst"

subsection \<open>Sorting with a comparator\<close>

text \<open>
  \<^verbatim>\<open>std::sort(first, last, comp)\<close> returns the elements in an order in which no element
  is less, by \<open>comp\<close>, than one before it; the order of equivalent elements is not specified.
  The model is the insertion sort, one of the orders the library may return.
\<close>

fun insert_sorted :: "('a \<Rightarrow> 'a \<Rightarrow> bool) \<Rightarrow> 'a \<Rightarrow> 'a list \<Rightarrow> 'a list" where
  "insert_sorted cmp x [] = [x]"
| "insert_sorted cmp x (y # ys) =
     (if cmp y x then y # insert_sorted cmp x ys else x # y # ys)"

definition std_sort :: "('a \<Rightarrow> 'a \<Rightarrow> bool) \<Rightarrow> 'a list \<Rightarrow> 'a list" where
  "std_sort cmp xs = foldr (insert_sorted cmp) xs []"

text \<open>
  Modelled from the spec: \<^verbatim>\<open>EigenvalueComparator<Complex, LARGEST_MAGN>\<close> of
  \<^verbatim>\<open>SelectionRule.h\<close>, which the solver includes and which is not among the sources.
  The specification's table of selection rules gives LARGEST_MAGN the primary key
  \<open>|\<theta>|\<close> descending and the tie-break \<open>Re(\<theta>)\<close> descending; the comparator orders the pairs
  (value, index) by their value.
\<close>

definition largest_magn_comp :: "complex \<times> int \<Rightarrow> complex \<times> int \<Rightarrow> bool" where
  "largest_magn_comp v1 v2 =
     (cmod (fst v1) > cmod (fst v2) \<or>
      (cmod (fst v1) = cmod (fst v2) \<and> Re (fst v1) > Re (fst v2)))"

text \<open>
  Modelled from the spec: \<^verbatim>\<open>EigenvalueComparator<Complex, LARGEST_REAL>\<close> of the same
  header; the table gives LARGEST_REAL the primary key \<open>Re(\<theta>)\<close> descending and the tie-break
  \<open>Im(\<theta>)\<close> descending.
\<close>

definition largest_real_comp :: "complex \<times> int \<Rightarrow> complex \<times> int \<Rightarrow> bool" where
  "largest_real_comp v1 v2 =
     (Re (fst v1) > Re (fst v2) \<or> (Re (fst v1) = Re (fst v2) \<and> Im (fst v1) > Im (fst v2)))"

subsection \<open>What the solver calls and does not define\<close>

text \<open>
  The operator \<^verbatim>\<open>op->perform_op\<close>, the dense eigen solver of the linear algebra library
  (eigenvalues and eigenvectors of \<^verbatim>\<open>fac_H\<close>), the orthogonal factor of its Householder QR
  decomposition, the three operations of \<^verbatim>\<open>UpperHessenbergQR\<close> (on the matrix given to its
  \<^verbatim>\<open>compute\<close>) and the comparator of the solver's selection rule are parameters.
\<close>

record backend =
  perform_op :: "vec \<Rightarrow> vec"
  eigen_solver :: "mat \<Rightarrow> cvec \<times> cmat"
  householderQ :: "mat \<Rightarrow> mat"
  hb_matrix_RQ :: "mat \<Rightarrow> mat"
  hb_apply_YQ :: "mat \<Rightarrow> mat \<Rightarrow> mat"
  hb_apply_QtY :: "mat \<Rightarrow> vec \<Rightarrow> vec"
  selection_comp :: "complex \<times> int \<Rightarrow> complex \<times> int \<Rightarrow> bool"

subsection \<open>Arnoldi factorization\<close>

text \<open>
  One iteration of the loop of \<^verbatim>\<open>factorize_from\<close>, at index \<open>i\<close>. The quotient \<open>f / \<beta>\<close>
  is that of the reals; the program divides in floating point, also by zero.
\<close>

definition factorize_step :: "(vec \<Rightarrow> vec) \<Rightarrow> solver \<Rightarrow> int \<Rightarrow> solver" where
  "factorize_step op st i =
     (let beta = vec_norm (fac_f st);
          v = map (\<lambda>x. x / beta) (fac_f st);
          V = (fac_V st)[nat i := v];
          H = block_setZero (fac_H st) i 0 1 i;
          H = mat_put H i (i - 1) beta;
          w = op v;
          h = tmat_vec (take (nat (i + 1)) V) w;
          H = H[nat i := h @ drop (length h) (H ! nat i)];
          f = vec_sub w (mat_vec (take (nat (i + 1)) V) h);
          v1f = dot f (V ! 0);
          f = (if v1f > prec st \<or> v1f < - prec st
               then let Vf = v1f # tmat_vec (take (nat i) (drop 1 V)) f
                    in vec_sub f (mat_vec (take (nat (i + 1)) V) Vf)
               else f)
      in st\<lparr>nmatop := nmatop st + 1, fac_V := V, fac_H := H, fac_f := f\<rparr>)"

definition factorize_from :: "(vec \<Rightarrow> vec) \<Rightarrow> solver \<Rightarrow> int \<Rightarrow> int \<Rightarrow> vec \<Rightarrow> solver" where
  "factorize_from op st from_k to_m fk =
     (if to_m \<le> from_k then st
      else let H = block_setZero (fac_H st) 0 from_k (ncv st) (ncv st - from_k);
               H = block_setZero H from_k 0 (ncv st - from_k) from_k
           in fold (\<lambda>i s. factorize_step op s i) [from_k..to_m - 1]
                (st\<lparr>fac_H := H, fac_f := fk\<rparr>))"



subsection \<open>Ritz pairs\<close>

definition retrieve_ritzpair :: "backend \<Rightarrow> solver \<Rightarrow> solver" where
  "retrieve_ritzpair be st =
     (case eigen_solver be (fac_H st) of (evals, evecs) \<Rightarrow>
        let pairs = std_sort (selection_comp be)
                      (map (\<lambda>i. (evals ! i, int i)) [0..<nat (ncv st)])
        in st\<lparr>ritz_val := assign_head (nat (ncv st)) (map fst pairs) (ritz_val st),
               ritz_vec := assign_head (nat (nev st))
                             (map (\<lambda>p. evecs ! nat (snd p)) pairs) (ritz_vec st)\<rparr>)"

definition num_converged :: "solver \<Rightarrow> real \<Rightarrow> solver \<times> int" where
  "num_converged st tol =
     (let thresh = map (\<lambda>\<theta>. tol * max (cmod \<theta>) (prec st)) (take (nat (nev st)) (ritz_val st));
          resid = map (\<lambda>c. cmod (last c) * vec_norm (fac_f st)) (ritz_vec st);
          conv = map2 (\<lambda>r t. r < t) resid thresh
      in (st\<lparr>ritz_conv := conv\<rparr>, int (length (filter id conv))))"

definition sort_ritzpair :: "solver \<Rightarrow> solver" where
  "sort_ritzpair st =
     (let pairs = std_sort largest_magn_comp
                    (map (\<lambda>i. (ritz_val st ! i, int i)) [0..<nat (nev st)]);
          new_ritz_vec = map (\<lambda>p. ritz_vec st ! nat (snd p)) pairs;
          new_ritz_conv = map (\<lambda>p. ritz_conv st ! nat (snd p)) pairs
      in st\<lparr>ritz_val := assign_head (nat (nev st)) (map fst pairs) (ritz_val st),
             ritz_vec := new_ritz_vec, ritz_conv := new_ritz_conv\<rparr>)"

text \<open>
  \<^verbatim>\<open>GenEigsRealShiftSolver::sort_ritzpair\<close>, the override of the shift-and-invert solver
  with the real shift \<open>sigma\<close>.
\<close>

definition real_shift_sort_ritzpair :: "real \<Rightarrow> solver \<Rightarrow> solver" where
  "real_shift_sort_ritzpair sigma st =
     (let ritz_val_org = map (\<lambda>\<theta>. 1 / \<theta> + complex_of_real sigma)
                           (take (nat (nev st)) (ritz_val st))
      in sort_ritzpair
           (st\<lparr>ritz_val := assign_head (nat (nev st)) ritz_val_org (ritz_val st)\<rparr>))"

text \<open>The two solver classes, and the virtual call of \<^verbatim>\<open>sort_ritzpair\<close>.\<close>

datatype solver_class = GenEigsSolver | GenEigsRealShiftSolver real

fun sort_ritzpair_virtual :: "solver_class \<Rightarrow> solver \<Rightarrow> solver" where
  "sort_ritzpair_virtual GenEigsSolver st = sort_ritzpair st"
| "sort_ritzpair_virtual (GenEigsRealShiftSolver sigma) st = real_shift_sort_ritzpair sigma st"

subsection \<open>Implicit restart\<close>

text \<open>
  The two branches of the loop of \<^verbatim>\<open>restart\<close>, on \<^verbatim>\<open>fac_V\<close>, \<^verbatim>\<open>fac_H\<close> and the vector
  \<^verbatim>\<open>em\<close>: the sweep for a conjugate pair of shifts, with the QR decomposition of
  \<open>H (H - 2 Re(\<mu>) I) + |\<mu>|\<^sup>2 I\<close>, and the sweep for a real shift.
\<close>

definition conj_pair_sweep :: "backend \<Rightarrow> complex \<Rightarrow> mat \<times> mat \<times> vec \<Rightarrow> mat \<times> mat \<times> vec" where
  "conj_pair_sweep be mu VHe =
     (case VHe of (V, H, em) \<Rightarrow>
        let re = Re mu;
            s = Re mu * Re mu + Im mu * Im mu;
            HH = add_diag H (- (2 * re));
            HH = mat_mul H HH;
            HH = add_diag HH s;
            Q = householderQ be HH
        in (mat_mul V Q,
            mat_mul (mat_transpose Q) (mat_mul H Q),
            mat_vec (mat_transpose Q) em))"

definition real_shift_sweep :: "backend \<Rightarrow> complex \<Rightarrow> mat \<times> mat \<times> vec \<Rightarrow> mat \<times> mat \<times> vec" where
  "real_shift_sweep be mu VHe =
     (case VHe of (V, H, em) \<Rightarrow>
        let H1 = add_diag H (- Re mu)
        in (hb_apply_YQ be H1 V,
            add_diag (hb_matrix_RQ be H1) (Re mu),
            hb_apply_QtY be H1 em))"

function restart_loop ::
  "backend \<Rightarrow> solver \<Rightarrow> int \<Rightarrow> mat \<times> mat \<times> vec \<Rightarrow> error + mat \<times> mat \<times> vec" where
  "restart_loop be st i VHe =
     (if i < ncv st
      then (case complex_and_conj st i of
              Inl e \<Rightarrow> Inl e
            | Inr b \<Rightarrow>
                if b
                then restart_loop be st (i + 1 + 1)
                       (conj_pair_sweep be (ritz_val st ! nat i) VHe)
                else restart_loop be st (i + 1)
                       (real_shift_sweep be (ritz_val st ! nat i) VHe))
      else Inr VHe)"
  by pat_completeness auto
termination
  by (relation "measure (\<lambda>(be, st, i, VHe). nat (ncv st - i))") auto

definition restart :: "backend \<Rightarrow> solver \<Rightarrow> int \<Rightarrow> error + solver" where
  "restart be st k =
     (if k \<ge> ncv st then Inr st
      else
        let em = (replicate (nat (ncv st)) 0)[nat (ncv st - 1) := 1]
        in case restart_loop be st k (fac_V st, fac_H st, em) of
             Inl e \<Rightarrow> Inl e
           | Inr (V, H, em) \<Rightarrow>
               (case vec_at em (k - 1) of
                  Inl e \<Rightarrow> Inl e
                | Inr emk \<Rightarrow>
                    let fk = vec_add (vec_scale emk (fac_f st))
                               (vec_scale (mat_get H k (k - 1)) (V ! nat k));
                        st = factorize_from (perform_op be) (st\<lparr>fac_V := V, fac_H := H\<rparr>)
                               k (ncv st) fk
                    in Inr (retrieve_ritzpair be st)))"

subsection \<open>Construction, initialization and the main loop\<close>

text \<open>
  The constructor, for an operator with \<open>n\<close> rows. The precision \<open>\<epsilon>\<^sup>2\<^sup>/\<^sup>3\<close> of the scalar type
  is the parameter \<open>eps23\<close>; matrices and vectors are empty until \<^verbatim>\<open>init\<close>.
\<close>

definition new_solver :: "real \<Rightarrow> int \<Rightarrow> int \<Rightarrow> int \<Rightarrow> error + solver" where
  "new_solver eps23 n nev0 ncv0 =
     (if nev0 < 1 \<or> nev0 \<ge> n then Inl InvalidArgument
      else if ncv0 \<le> nev0 then Inl InvalidArgument
      else Inr \<lparr>dim_n = n, nev = nev0, ncv = (if ncv0 > n then n else ncv0),
                nmatop = 0, niter = 0, fac_V = [], fac_H = [], fac_f = [],
                ritz_val = [], ritz_vec = [], ritz_conv = [], prec = eps23\<rparr>)"

definition init :: "backend \<Rightarrow> solver \<Rightarrow> vec \<Rightarrow> error + solver" where
  "init be st init_resid =
     (let n = nat (dim_n st); m = nat (ncv st); k = nat (nev st);
          st = st\<lparr>fac_V := replicate m (replicate n 0),
                  fac_H := replicate m (replicate m 0),
                  fac_f := replicate n 0,
                  ritz_val := replicate m 0,
                  ritz_vec := replicate k (replicate m 0),
                  ritz_conv := replicate k False\<rparr>;
          v = take n init_resid;
          vnorm = vec_norm v
      in if vnorm < prec st then Inl InvalidArgument
         else
           let v = map (\<lambda>x. x / vnorm) v;
               w = perform_op be v;
               H = mat_put (fac_H st) 0 0 (dot v w)
           in Inr (st\<lparr>nmatop := nmatop st + 1,
                       fac_H := H,
                       fac_f := vec_sub w (vec_scale (mat_get H 0 0) v),
                       fac_V := (fac_V st)[0 := v]\<rparr>))"

text \<open>
  \<^verbatim>\<open>init()\<close> without argument. The vector \<open>rnd\<close> is what \<^verbatim>\<open>Vector::Random(dim_n)\<close> returns;
  the linear algebra library documents its coefficients, for a floating-point scalar, as
  uniform in the range \<open>[-1, 1]\<close>, which is \<open>library_random\<close>.
\<close>

definition library_random :: "int \<Rightarrow> vec \<Rightarrow> bool" where
  "library_random n rnd = (int (length rnd) = n \<and> list_all (\<lambda>x. - 1 \<le> x \<and> x \<le> 1) rnd)"

definition random_init_resid :: "vec \<Rightarrow> vec" where
  "random_init_resid rnd = map (\<lambda>x. x - 0.5) rnd"

definition init_random :: "backend \<Rightarrow> solver \<Rightarrow> vec \<Rightarrow> error + solver" where
  "init_random be st rnd = init be st (random_init_resid rnd)"

text \<open>
  The restart loop of \<^verbatim>\<open>compute\<close>, from the counter \<open>i\<close> and the current value of the
  local variable \<^verbatim>\<open>nconv\<close>; it returns the state and the two variables at the exit.
\<close>

function compute_loop ::
  "backend \<Rightarrow> int \<Rightarrow> real \<Rightarrow> int \<Rightarrow> int \<Rightarrow> solver \<Rightarrow> error + solver \<times> int \<times> int" where
  "compute_loop be maxit tol i nconv st =
     (if i < maxit
      then (case num_converged st tol of
              (st1, nconv1) \<Rightarrow>
                if nconv1 \<ge> nev st1 then Inr (st1, i, nconv1)
                else (case nev_adjusted st1 nconv1 of
                        Inl e \<Rightarrow> Inl e
                      | Inr nev_adj \<Rightarrow>
                          (case restart be st1 nev_adj of
                             Inl e \<Rightarrow> Inl e
                           | Inr st2 \<Rightarrow> compute_loop be maxit tol (i + 1) nconv1 st2)))
      else Inr (st, i, nconv))"
  by pat_completeness auto
termination
  by (relation "measure (\<lambda>(be, maxit, tol, i, nconv, st). nat (maxit - i))") auto

text \<open>
  \<^verbatim>\<open>compute(maxit, tol)\<close> of a solver of class \<open>cls\<close>. The local variable \<^verbatim>\<open>nconv\<close> is
  declared without an initial value; \<open>nconv0\<close> is the value it holds before its first
  assignment.
\<close>

definition compute ::
  "backend \<Rightarrow> solver_class \<Rightarrow> int \<Rightarrow> int \<Rightarrow> real \<Rightarrow> solver \<Rightarrow> error + solver \<times> int" where
  "compute be cls nconv0 maxit tol st =
     (let st = factorize_from (perform_op be) st 1 (ncv st) (fac_f st);
          st = retrieve_ritzpair be st
      in case compute_loop be maxit tol 0 nconv0 st of
           Inl e \<Rightarrow> Inl e
         | Inr (st, i, nconv) \<Rightarrow>
             let st = sort_ritzpair_virtual cls st;
                 st = st\<lparr>niter := niter st + (i + 1)\<rparr>
             in Inr (st, min (nev st) nconv))"

section \<open>The double-shift QR sweep\<close>

text \<open>
  The class \<^verbatim>\<open>DoubleShiftQR\<close>. Its members \<^verbatim>\<open>n\<close> and \<^verbatim>\<open>prec\<close> are the fields \<open>qr_n\<close> and
  \<open>qr_prec\<close>; \<^verbatim>\<open>ref_u\<close> has three rows and one column for each Householder reflector.
\<close>

record double_shift_qr =
  qr_n :: int
  mat_H :: mat
  shift_s :: real
  shift_t :: real
  ref_u :: mat
  qr_prec :: real
  computed :: bool

text \<open>
  A block of a matrix, \<^verbatim>\<open>M.block(startRow, startCol, rows, cols)\<close>: a view, whose
  coefficients are those of \<open>M\<close>. Blocks of blocks add the offsets.
\<close>

type_synonym block = "int \<times> int \<times> int \<times> int"

definition sub_block :: "block \<Rightarrow> int \<Rightarrow> int \<Rightarrow> int \<Rightarrow> int \<Rightarrow> block" where
  "sub_block X i j p q = (case X of (r0, c0, nr, nc) \<Rightarrow> (r0 + i, c0 + j, p, q))"

definition block_rows :: "block \<Rightarrow> int" where
  "block_rows X = (case X of (r0, c0, nr, nc) \<Rightarrow> nr)"

definition block_cols :: "block \<Rightarrow> int" where
  "block_cols X = (case X of (r0, c0, nr, nc) \<Rightarrow> nc)"

definition block_get :: "mat \<Rightarrow> block \<Rightarrow> int \<Rightarrow> int \<Rightarrow> real" where
  "block_get M X i j = (case X of (r0, c0, nr, nc) \<Rightarrow> mat_get M (r0 + i) (c0 + j))"

definition block_put :: "mat \<Rightarrow> block \<Rightarrow> int \<Rightarrow> int \<Rightarrow> real \<Rightarrow> mat" where
  "block_put M X i j x = (case X of (r0, c0, nr, nc) \<Rightarrow> mat_put M (r0 + i) (c0 + j) x)"

definition compute_reflector ::
  "double_shift_qr \<Rightarrow> real \<Rightarrow> real \<Rightarrow> real \<Rightarrow> int \<Rightarrow> double_shift_qr" where
  "compute_reflector q x1 x2 x3 ind =
     (let tmp = x2 * x2 + x3 * x3;
          x1_new = x1 - real_of_int (of_bool (x1 < 0) - of_bool (x1 > 0)) * sqrt (x1 * x1 + tmp);
          x_norm = sqrt (x1_new * x1_new + tmp)
      in if x_norm \<le> qr_prec q
         then q\<lparr>ref_u := (ref_u q)[nat ind := [0, 0, 0]]\<rparr>
         else q\<lparr>ref_u := (ref_u q)[nat ind := [x1_new / x_norm, x2 / x_norm, x3 / x_norm]]\<rparr>)"

text \<open>
  \<^verbatim>\<open>apply_PX(X, u_ind)\<close>, \<open>X \<leftarrow> P X\<close> with \<open>P = I - 2 u u\<^sup>T\<close>, on a block \<open>X\<close> of the matrix
  \<open>M\<close> with two or three rows; the result is the matrix with the block updated.
\<close>

definition apply_PX :: "double_shift_qr \<Rightarrow> mat \<Rightarrow> block \<Rightarrow> int \<Rightarrow> mat" where
  "apply_PX q M X u_ind =
     (let nrow = block_rows X; ncol = block_cols X;
          sqrt_2 = sqrt 2;
          u0 = sqrt_2 * mat_get (ref_u q) 0 u_ind;
          u1 = sqrt_2 * mat_get (ref_u q) 1 u_ind;
          u2 = sqrt_2 * mat_get (ref_u q) 2 u_ind
      in if u0 * u0 + u1 * u1 + u2 * u2 \<le> qr_prec q then M
         else if nrow = 2
         then fold (\<lambda>i M.
                 let tmp = u0 * block_get M X 0 i + u1 * block_get M X 1 i;
                     M = block_put M X 0 i (block_get M X 0 i - tmp * u0);
                     M = block_put M X 1 i (block_get M X 1 i - tmp * u1)
                 in M) [0..ncol - 1] M
         else fold (\<lambda>i M.
                 let tmp = u0 * block_get M X 0 i + u1 * block_get M X 1 i
                             + u2 * block_get M X 2 i;
                     M = block_put M X 0 i (block_get M X 0 i - tmp * u0);
                     M = block_put M X 1 i (block_get M X 1 i - tmp * u1);
                     M = block_put M X 2 i (block_get M X 2 i - tmp * u2)
                 in M) [0..ncol - 1] M)"

text \<open>\<^verbatim>\<open>apply_XP(X, u_ind)\<close>, \<open>X \<leftarrow> X P\<close>, on a block with two or three columns.\<close>

definition apply_XP :: "double_shift_qr \<Rightarrow> mat \<Rightarrow> block \<Rightarrow> int \<Rightarrow> mat" where
  "apply_XP q M X u_ind =
     (let nrow = block_rows X; ncol = block_cols X;
          sqrt_2 = sqrt 2;
          u0 = sqrt_2 * mat_get (ref_u q) 0 u_ind;
          u1 = sqrt_2 * mat_get (ref_u q) 1 u_ind;
          u2 = sqrt_2 * mat_get (ref_u q) 2 u_ind
      in if u0 * u0 + u1 * u1 + u2 * u2 \<le> qr_prec q then M
         else if ncol = 2
         then fold (\<lambda>i M.
                 let tmp = u0 * block_get M X i 0 + u1 * block_get M X i 1;
                     M = block_put M X i 0 (block_get M X i 0 - tmp * u0);
                     M = block_put M X i 1 (block_get M X i 1 - tmp * u1)
                 in M) [0..nrow - 1] M
         else fold (\<lambda>i M.
                 let tmp = u0 * block_get M X i 0 + u1 * block_get M X i 1
                             + u2 * block_get M X i 2;
                     M = block_put M X i 0 (block_get M X i 0 - tmp * u0);
                     M = block_put M X i 1 (block_get M X i 1 - tmp * u1);
                     M = block_put M X i 2 (block_get M X i 2 - tmp * u2)
                 in M) [0..nrow - 1] M)"

text \<open>
  One iteration of the loop of \<^verbatim>\<open>compute_reflectors_from_block\<close>, which chases the bulge
  from column \<open>i - 1\<close> of the block.
\<close>

definition chase_step :: "block \<Rightarrow> int \<Rightarrow> int \<Rightarrow> double_shift_qr \<Rightarrow> double_shift_qr" where
  "chase_step X start_ind i q =
     (let nrow = block_rows X;
          q = compute_reflector q (block_get (mat_H q) X i (i - 1))
                (block_get (mat_H q) X (i + 1) (i - 1))
                (block_get (mat_H q) X (i + 2) (i - 1)) (start_ind + i);
          q = q\<lparr>mat_H := apply_PX q (mat_H q) (sub_block X i (i - 1) 3 (nrow - i + 1))
                            (start_ind + i)\<rparr>;
          q = q\<lparr>mat_H := apply_XP q (mat_H q) (sub_block X 0 i (min nrow (i + 4)) 3)
                            (start_ind + i)\<rparr>
      in q)"

text \<open>
  The first reflector of a block with at least three rows, from the first column of
  \<open>X\<^sup>2 - s X + t I\<close>, and its application to \<open>X\<close> from both sides.
\<close>

definition first_reflector :: "block \<Rightarrow> int \<Rightarrow> double_shift_qr \<Rightarrow> double_shift_qr" where
  "first_reflector X start_ind q =
     (let nrow = block_rows X;
          H = mat_H q;
          x = block_get H X 0 0 * (block_get H X 0 0 - shift_s q)
                + block_get H X 0 1 * block_get H X 1 0 + shift_t q;
          y = block_get H X 1 0 * (block_get H X 0 0 + block_get H X 1 1 - shift_s q);
          z = block_get H X 2 1 * block_get H X 1 0;
          q = compute_reflector q x y z start_ind;
          q = q\<lparr>mat_H := apply_PX q (mat_H q) (sub_block X 0 0 3 (block_cols X)) start_ind\<rparr>;
          q = q\<lparr>mat_H := apply_XP q (mat_H q) (sub_block X 0 0 (min nrow 4) 3) start_ind\<rparr>
      in q)"

text \<open>The last reflector of the block, of two coefficients, and the zero reflector after it.\<close>

definition last_reflector :: "block \<Rightarrow> int \<Rightarrow> double_shift_qr \<Rightarrow> double_shift_qr" where
  "last_reflector X start_ind q =
     (let nrow = block_rows X;
          q = compute_reflector q (block_get (mat_H q) X (nrow - 2) (nrow - 3))
                (block_get (mat_H q) X (nrow - 1) (nrow - 3)) 0 (start_ind + nrow - 2);
          q = compute_reflector q 0 0 0 (start_ind + nrow - 1);
          q = q\<lparr>mat_H := apply_PX q (mat_H q) (sub_block X (nrow - 2) (nrow - 3) 2 3)
                            (start_ind + nrow - 2)\<rparr>;
          q = q\<lparr>mat_H := apply_XP q (mat_H q) (sub_block X 0 (nrow - 2) nrow 2)
                            (start_ind + nrow - 2)\<rparr>
      in q)"

definition compute_reflectors_from_block ::
  "double_shift_qr \<Rightarrow> block \<Rightarrow> int \<Rightarrow> double_shift_qr" where
  "compute_reflectors_from_block q X start_ind =
     (let nrow = block_rows X
      in if nrow = 1 then compute_reflector q 0 0 0 start_ind
         else if nrow = 2
         then compute_reflector (compute_reflector q 0 0 0 start_ind) 0 0 0 (start_ind + 1)
         else last_reflector X start_ind
                (fold (chase_step X start_ind) [1..nrow - 2 - 1]
                   (first_reflector X start_ind q)))"

text \<open>
  The first loop of \<^verbatim>\<open>compute\<close>: a subdiagonal coefficient of absolute value at most
  \<^verbatim>\<open>prec\<close> is set to zero and its index starts a new block.
\<close>

definition deflate_step :: "int \<Rightarrow> double_shift_qr \<times> int list \<Rightarrow> double_shift_qr \<times> int list" where
  "deflate_step i qz =
     (case qz of (q, zero_ind) \<Rightarrow>
        if \<bar>mat_get (mat_H q) i (i - 1)\<bar> \<le> qr_prec q
        then (q\<lparr>mat_H := mat_put (mat_H q) i (i - 1) 0\<rparr>, zero_ind @ [i])
        else (q, zero_ind))"

text \<open>
  The body of the second loop of \<^verbatim>\<open>compute\<close>, for the block from \<open>start\<close> to
  \<open>next - 1\<close> (the variable \<^verbatim>\<open>end\<close>), where \<open>next\<close> is the entry of \<^verbatim>\<open>zero_ind\<close> after \<open>start\<close>.
\<close>

definition block_step :: "int \<times> int \<Rightarrow> double_shift_qr \<Rightarrow> double_shift_qr" where
  "block_step se q =
     (case se of (start, next) \<Rightarrow>
        let n = qr_n q;
            end_ind = next - 1;
            q = compute_reflectors_from_block q
                  (start, start, end_ind - start + 1, end_ind - start + 1) start;
            q = (if end_ind < n - 1 \<and> end_ind - start \<ge> 2
                 then fold (\<lambda>j q. q\<lparr>mat_H := apply_PX q (mat_H q)
                                        (j, end_ind + 1, min 3 (end_ind - j + 1), n - 1 - end_ind) j\<rparr>)
                        [start..end_ind - 1] q
                 else q);
            q = (if start > 0 \<and> end_ind - start \<ge> 2
                 then fold (\<lambda>j q. q\<lparr>mat_H := apply_XP q (mat_H q)
                                        (0, j, start, min 3 (end_ind - j + 1)) j\<rparr>)
                        [start..end_ind - 1] q
                 else q)
        in q)"

text \<open>
  \<^verbatim>\<open>compute(mat, s, t)\<close>, on an object \<open>q\<close> (of which only \<^verbatim>\<open>prec\<close> is read). The matrix
  \<^verbatim>\<open>mat_H\<close> starts as the upper triangle of \<open>mat\<close> with its first subdiagonal; the
  resized \<^verbatim>\<open>ref_u\<close>, every column of which is assigned before it is read, starts at zero.
\<close>

definition hessenberg_part :: "mat \<Rightarrow> mat" where
  "hessenberg_part M =
     map (\<lambda>j. map (\<lambda>i. if i \<le> j + 1 then M ! j ! i else 0) [0..<mat_rows M]) [0..<length M]"

definition qr_compute :: "double_shift_qr \<Rightarrow> mat \<Rightarrow> real \<Rightarrow> real \<Rightarrow> error + double_shift_qr" where
  "qr_compute q mat s t =
     (if int (mat_rows mat) \<noteq> int (length mat) then Inl InvalidArgument
      else
        let n = int (mat_rows mat);
            q = q\<lparr>qr_n := n, mat_H := hessenberg_part mat, shift_s := s, shift_t := t,
                  ref_u := replicate (nat n) [0, 0, 0]\<rparr>;
            (q, zero_ind) = fold deflate_step [1..n - 1 - 1] (q, [0]);
            zero_ind = zero_ind @ [n];
            q = fold block_step (zip zero_ind (tl zero_ind)) q
        in Inr (q\<lparr>computed := True\<rparr>))"

definition matrix_QtHQ :: "double_shift_qr \<Rightarrow> error + mat" where
  "matrix_QtHQ q = (if \<not> computed q then Inl LogicError else Inr (mat_H q))"

text \<open>The default constructor, with \<open>eps09\<close> the precision \<open>\<epsilon>\<^sup>0\<^sup>.\<^sup>9\<close> of the scalar type.\<close>

definition new_double_shift_qr :: "real \<Rightarrow> double_shift_qr" where
  "new_double_shift_qr eps09 =
     \<lparr>qr_n = 0, mat_H = [], shift_s = 0, shift_t = 0, ref_u = [], qr_prec = eps09,
      computed = False\<rparr>"

subsection \<open>The QR step the sweep is specified by\<close>

text \<open>
  The specification: the result of the sweep is \<open>Q\<^sup>T H Q\<close>, where \<open>Q\<close> is the orthogonal
  factor of a QR factorization of \<open>H\<^sup>2 - s H + t I\<close>.
\<close>

definition identity_mat :: "nat \<Rightarrow> mat" where
  "identity_mat n = map (\<lambda>j. map (\<lambda>i. if i = j then 1 else 0) [0..<n]) [0..<n]"

definition square_mat :: "nat \<Rightarrow> mat \<Rightarrow> bool" where
  "square_mat n M = (length M = n \<and> (\<forall>c \<in> set M. length c = n))"

definition orthogonal_mat :: "nat \<Rightarrow> mat \<Rightarrow> bool" where
  "orthogonal_mat n Q = (square_mat n Q \<and> mat_mul (mat_transpose Q) Q = identity_mat n)"

definition upper_triangular :: "nat \<Rightarrow> mat \<Rightarrow> bool" where
  "upper_triangular n R = (square_mat n R \<and> (\<forall>j < n. \<forall>i < n. j < i \<longrightarrow> R ! j ! i = 0))"

definition mat_add :: "mat \<Rightarrow> mat \<Rightarrow> mat" where
  "mat_add A B = map2 (map2 (+)) A B"

definition mat_scale :: "real \<Rightarrow> mat \<Rightarrow> mat" where
  "mat_scale a M = map (map (\<lambda>x. a * x)) M"

definition shift_polynomial :: "mat \<Rightarrow> real \<Rightarrow> real \<Rightarrow> mat" where
  "shift_polynomial H s t =
     mat_add (mat_add (mat_mul H H) (mat_scale (- s) H)) (mat_scale t (identity_mat (length H)))"

definition double_shift_step :: "nat \<Rightarrow> mat \<Rightarrow> real \<Rightarrow> real \<Rightarrow> mat \<Rightarrow> bool" where
  "double_shift_step n H s t H' =
     (\<exists>Q R. orthogonal_mat n Q \<and> upper_triangular n R \<and>
            mat_mul Q R = shift_polynomial H s t \<and>
            H' = mat_mul (mat_transpose Q) (mat_mul H Q))"

section \<open>Predicates of the properties\<close>

text \<open>
  Upper-Hessenberg matrices of order \<open>n\<close>, and those with no zero on the first
  subdiagonal.
\<close>

definition upper_hessenberg :: "nat \<Rightarrow> mat \<Rightarrow> bool" where
  "upper_hessenberg n H = (square_mat n H \<and> (\<forall>j < n. \<forall>i < n. j + 1 < i \<longrightarrow> H ! j ! i = 0))"

definition unreduced :: "nat \<Rightarrow> mat \<Rightarrow> bool" where
  "unreduced n H = (\<forall>j. j + 1 < n \<longrightarrow> H ! j ! (j + 1) \<noteq> 0)"

text \<open>
  The sizes \<^verbatim>\<open>init\<close> gives to the Ritz values, the Ritz vectors and the convergence flags,
  with the bounds on \<open>nev\<close> and \<open>ncv\<close> that the constructor checks.
\<close>

definition ritz_dims :: "solver \<Rightarrow> bool" where
  "ritz_dims st =
     (1 \<le> nev st \<and> nev st < ncv st \<and> int (length (ritz_val st)) = ncv st \<and>
      int (length (ritz_vec st)) = nev st \<and> int (length (ritz_conv st)) = nev st)"

text \<open>Two states with the same Ritz data.\<close>

definition same_ritz :: "solver \<Rightarrow> solver \<Rightarrow> bool" where
  "same_ritz s t = (nev t = nev s \<and> ncv t = ncv s \<and> prec t = prec s \<and>
     ritz_val t = ritz_val s \<and> ritz_vec t = ritz_vec s \<and> ritz_conv t = ritz_conv s)"

text \<open>
  The first \<open>n\<close> entries of \<open>new\<close> are those of \<open>old\<close> at the indices \<open>ps\<close>; the first
  \<open>n\<close> values have decreasing magnitude.
\<close>

definition permuted_by :: "nat list \<Rightarrow> nat \<Rightarrow> 'a list \<Rightarrow> 'a list \<Rightarrow> bool" where
  "permuted_by ps n old new = (\<forall>i < n. new ! i = old ! (ps ! i))"

definition decreasing_magnitude :: "nat \<Rightarrow> cvec \<Rightarrow> bool" where
  "decreasing_magnitude n \<theta> = (\<forall>i j. i \<le> j \<and> j < n \<longrightarrow> cmod (\<theta> ! j) \<le> cmod (\<theta> ! i))"

text \<open>The indices into which \<^verbatim>\<open>sort_ritzpair\<close> sorts its pairs.\<close>

definition sort_perm :: "solver \<Rightarrow> nat list" where
  "sort_perm st = map (\<lambda>p. nat (snd p))
     (std_sort largest_magn_comp (map (\<lambda>i. (ritz_val st ! i, int i)) [0..<nat (nev st)]))"

section \<open>Concrete solver states\<close>

text \<open>
  Six Ritz values with a conjugate pair at positions 1 and 2; two values are wanted.
\<close>

definition ritz_example :: solver where
  "ritz_example =
     \<lparr>dim_n = 6, nev = 2, ncv = 6, nmatop = 0, niter = 0,
      fac_V = [], fac_H = [], fac_f = [],
      ritz_val = [5, Complex 2 1, Complex 2 (- 1), 1, Complex 0 (1 / 2), 0],
      ritz_vec = [], ritz_conv = [], prec = 1 / 1000\<rparr>"

text \<open>
  A solver for the matrix with rows \<open>(1, 0, 0)\<close>, \<open>(2, 2, 0)\<close>, \<open>(0, 2, 3)\<close>, two wanted
  values and three Ritz values, in the state \<^verbatim>\<open>init\<close> leaves for the initial residual
  \<open>(1, 0, 0)\<close>; the eigen solver returns the eigenpairs of that matrix, and the selection
  rule of the iteration is the smallest magnitude (the QR routines are not reached in the
  runs below). The next three states are those after the factorization, after
  \<^verbatim>\<open>retrieve_ritzpair\<close> and after \<^verbatim>\<open>num_converged\<close>.
\<close>

definition example_backend :: backend where
  "example_backend = \<lparr>perform_op = mat_vec [[1, 2, 0], [0, 2, 2], [0, 0, 3]],
            eigen_solver = (\<lambda>H. ([1, 2, 3], [[1, - 2, 2], [0, 1, - 2], [0, 0, 1]])),
            householderQ = (\<lambda>M. M), hb_matrix_RQ = (\<lambda>M. M), hb_apply_YQ = (\<lambda>M Y. Y),
            hb_apply_QtY = (\<lambda>M y. y),
            selection_comp = (\<lambda>a b. cmod (fst a) < cmod (fst b))\<rparr>"

definition example_solver :: solver where
  "example_solver = \<lparr>dim_n = 3, nev = 2, ncv = 3, nmatop = 1, niter = 0,
      fac_V = [[1, 0, 0], [0, 0, 0], [0, 0, 0]],
      fac_H = [[1, 0, 0], [0, 0, 0], [0, 0, 0]],
      fac_f = [0, 2, 0],
      ritz_val = [0, 0, 0], ritz_vec = [[0, 0, 0], [0, 0, 0]], ritz_conv = [False, False],
      prec = 1 / 10000000000\<rparr>"

definition example_factorized :: solver where
  "example_factorized = \<lparr>dim_n = 3, nev = 2, ncv = 3, nmatop = 3, niter = 0,
      fac_V = [[1, 0, 0], [0, 1, 0], [0, 0, 1]],
      fac_H = [[1, 2, 0], [0, 2, 2], [0, 0, 3]],
      fac_f = [0, 0, 0],
      ritz_val = [0, 0, 0], ritz_vec = [[0, 0, 0], [0, 0, 0]], ritz_conv = [False, False],
      prec = 1 / 10000000000\<rparr>"

definition example_retrieved :: solver where
  "example_retrieved =
     example_factorized\<lparr>ritz_val := [1, 2, 3], ritz_vec := [[1, - 2, 2], [0, 1, - 2]]\<rparr>"

definition example_converged :: solver where
  "example_converged = example_retrieved\<lparr>ritz_conv := [True, True]\<rparr>"

text \<open>
  A run with the smallest subspace the constructor admits: \<open>n = 3\<close>, \<open>nev = 1\<close>, \<open>ncv = 2\<close>,
  the largest-magnitude rule, on the operator of the first example. From the first unit
  vector one Arnoldi step gives \<^verbatim>\<open>fac_H\<close> with rows \<open>(1, 0)\<close>, \<open>(2, 2)\<close> and the residual
  \<open>(0, 0, 2)\<close>; the eigenvalue routine returns the eigenpairs \<open>1, (1, -2)\<close> and \<open>2, (0, 1)\<close> of
  that matrix. The states are the one after \<^verbatim>\<open>init\<close>, after the factorization and after
  \<^verbatim>\<open>retrieve_ritzpair\<close>.
\<close>

definition two_value_backend :: backend where
  "two_value_backend =
     \<lparr>perform_op = mat_vec [[1, 2, 0], [0, 2, 2], [0, 0, 3]],
      eigen_solver = (\<lambda>H. ([1, 2], [[1, - 2], [0, 1]])),
      householderQ = (\<lambda>M. M), hb_matrix_RQ = (\<lambda>M. M), hb_apply_YQ = (\<lambda>M Y. Y),
      hb_apply_QtY = (\<lambda>M y. y),
      selection_comp = largest_magn_comp\<rparr>"

definition two_value_solver :: solver where
  "two_value_solver =
     \<lparr>dim_n = 3, nev = 1, ncv = 2, nmatop = 1, niter = 0,
      fac_V = [[1, 0, 0], [0, 0, 0]],
      fac_H = [[1, 0], [0, 0]],
      fac_f = [0, 2, 0],
      ritz_val = [0, 0], ritz_vec = [[0, 0]], ritz_conv = [False],
      prec = 1 / 10000000000\<rparr>"

definition two_value_factorized :: solver where
  "two_value_factorized =
     \<lparr>dim_n = 3, nev = 1, ncv = 2, nmatop = 2, niter = 0,
      fac_V = [[1, 0, 0], [0, 1, 0]],
      fac_H = [[1, 2], [0, 2]],
      fac_f = [0, 0, 2],
      ritz_val = [0, 0], ritz_vec = [[0, 0]], ritz_conv = [False],
      prec = 1 / 10000000000\<rparr>"

definition two_value_retrieved :: solver where
  "two_value_retrieved = two_value_factorized\<lparr>ritz_val := [2, 1], ritz_vec := [[0, 1]]\<rparr>"

text \<open>
  A run that reaches the restart with an unpaired complex Ritz value at the last index.
  The operator, by its columns, is the companion matrix of
  \<open>(x\<^sup>2 - 2x + 2)(x\<^sup>2 - 2x + 5)\<close> bordered by one row and one zero column; started from the
  first unit vector, three Arnoldi steps produce the companion matrix itself as \<^verbatim>\<open>fac_H\<close>,
  with residual the fifth unit vector. The eigenvalue routine returns the eigenvalues
  \<open>1 \<plusminus> i\<close>, \<open>1 \<plusminus> 2i\<close> of that matrix, each with the eigenvector of last coefficient one; the
  selection rule is the largest real part. The QR routines are never reached.
\<close>

definition companion_op :: mat where
  "companion_op = [[0, 1, 0, 0, 0], [0, 0, 1, 0, 0], [0, 0, 0, 1, 0], [- 10, 14, - 11, 4, 1],
                   [0, 0, 0, 0, 0]]"

definition companion_evals :: cvec where
  "companion_evals = [Complex 1 1, Complex 1 (- 1), Complex 1 2, Complex 1 (- 2)]"

definition companion_evecs :: cmat where
  "companion_evecs = [[Complex (- 5) 5, Complex 7 (- 2), Complex (- 3) 1, 1],
                      [Complex (- 5) (- 5), Complex 7 2, Complex (- 3) (- 1), 1],
                      [Complex (- 2) 4, Complex 4 (- 4), Complex (- 3) 2, 1],
                      [Complex (- 2) (- 4), Complex 4 4, Complex (- 3) (- 2), 1]]"

definition companion_backend :: backend where
  "companion_backend =
     \<lparr>perform_op = mat_vec companion_op,
      eigen_solver = (\<lambda>H. (companion_evals, companion_evecs)),
      householderQ = (\<lambda>M. M), hb_matrix_RQ = (\<lambda>M. M), hb_apply_YQ = (\<lambda>M Y. Y),
      hb_apply_QtY = (\<lambda>M y. y),
      selection_comp = largest_real_comp\<rparr>"

definition companion_solver :: solver where
  "companion_solver =
     \<lparr>dim_n = 5, nev = 1, ncv = 4, nmatop = 1, niter = 0,
      fac_V = [[1, 0, 0, 0, 0], [0, 0, 0, 0, 0], [0, 0, 0, 0, 0], [0, 0, 0, 0, 0]],
      fac_H = [[0, 0, 0, 0], [0, 0, 0, 0], [0, 0, 0, 0], [0, 0, 0, 0]],
      fac_f = [0, 1, 0, 0, 0],
      ritz_val = [0, 0, 0, 0], ritz_vec = [[0, 0, 0, 0]], ritz_conv = [False],
      prec = 1 / 10000000000\<rparr>"

definition companion_factorized :: solver where
  "companion_factorized =
     \<lparr>dim_n = 5, nev = 1, ncv = 4, nmatop = 4, niter = 0,
      fac_V = [[1, 0, 0, 0, 0], [0, 1, 0, 0, 0], [0, 0, 1, 0, 0], [0, 0, 0, 1, 0]],
      fac_H = [[0, 1, 0, 0], [0, 0, 1, 0], [0, 0, 0, 1], [- 10, 14, - 11, 4]],
      fac_f = [0, 0, 0, 0, 1],
      ritz_val = [0, 0, 0, 0], ritz_vec = [[0, 0, 0, 0]], ritz_conv = [False],
      prec = 1 / 10000000000\<rparr>"

text \<open>
  The state after \<^verbatim>\<open>retrieve_ritzpair\<close>: four Ritz values in the order of the largest real
  part (the tie broken by the larger imaginary part), two conjugate pairs with the same
  real part, one inside the other.
\<close>

definition unpaired_example :: solver where
  "unpaired_example =
     companion_factorized
       \<lparr>ritz_val := [Complex 1 2, Complex 1 1, Complex 1 (- 1), Complex 1 (- 2)],
        ritz_vec := [[Complex (- 2) 4, Complex 4 (- 4), Complex (- 3) 2, 1]]\<rparr>"

text \<open>
  Two upper-Hessenberg matrices with subdiagonal \<open>(1, 1)\<close>, given by their columns, for the
  shift pair \<open>\<plusminus>i\<close> (\<open>s = 0\<close>, \<open>t = 1\<close>). For both, the first coefficient of the first column
  of \<open>H\<^sup>2 - s H + t I\<close> is zero. Each comes with the matrix the sweep returns and with the
  object \<^verbatim>\<open>compute\<close> starts from.
\<close>

definition pivot_example :: mat where
  "pivot_example = [[0, 1, 0], [- 1, 0, 1], [1, 2, 3]]"

definition pivot_result :: mat where
  "pivot_result = [[0, - 1, 0], [1, 0, 1], [- 1, 2, 3]]"

definition pivot_start :: "real \<Rightarrow> double_shift_qr" where
  "pivot_start eps = \<lparr>qr_n = 3, mat_H = pivot_example, shift_s = 0, shift_t = 1,
      ref_u = [[0, 0, 0], [0, 0, 0], [0, 0, 0]], qr_prec = eps, computed = False\<rparr>"

definition bulge_example :: mat where
  "bulge_example = [[0, 1, 0], [- 1, 1, 1], [0, 0, 0]]"

definition bulge_result :: mat where
  "bulge_result = [[0, 0, 1], [0, 0, 0], [- 1, - 1, 1]]"

definition bulge_start :: "real \<Rightarrow> double_shift_qr" where
  "bulge_start eps = \<lparr>qr_n = 3, mat_H = bulge_example, shift_s = 0, shift_t = 1,
      ref_u = [[0, 0, 0], [0, 0, 0], [0, 0, 0]], qr_prec = eps, computed = False\<rparr>"

section \<open>Properties\<close>

lemma cpp_div_nonneg: "0 \<le> a \<Longrightarrow> cpp_div a 2 = a div 2"
  by (cases "a = 0") (simp_all add: cpp_div_def)

lemma floor_half: "\<lfloor>real_of_int a / 2\<rfloor> = a div 2"
  by (simp add: floor_divide_of_int_eq [of a 2, simplified])

lemma complex_and_conj_in_range:
  assumes "0 \<le> i" "i + 1 < int (length (ritz_val st))"
  shows "complex_and_conj st i =
           Inr (is_complex (ritz_val st ! nat i) (prec st) \<and>
                is_conj (ritz_val st ! nat i) (ritz_val st ! nat (i + 1)) (prec st))"
  using assms by (simp add: complex_and_conj_def vec_at_def)

subsection \<open>Sorting and element-wise assignment\<close>

lemma length_assign_head: "length (assign_head n src dst) = length dst"
  unfolding assign_head_def by (induction n) simp_all

lemma nth_assign_head:
  "i < length dst \<Longrightarrow> assign_head n src dst ! i = (if i < n then src ! i else dst ! i)"
proof (induction n)
  case 0
  then show ?case by (simp add: assign_head_def)
next
  case (Suc n)
  have step: "assign_head (Suc n) src dst = (assign_head n src dst)[n := src ! n]"
    by (simp add: assign_head_def)
  show ?case
    using Suc by (auto simp: step length_assign_head nth_list_update less_Suc_eq)
qed

lemma mset_insert_sorted: "mset (insert_sorted cmp x xs) = add_mset x (mset xs)"
  by (induction xs) simp_all

lemma mset_std_sort: "mset (std_sort cmp xs) = mset xs"
  unfolding std_sort_def by (induction xs) (simp_all add: mset_insert_sorted)

lemma set_std_sort: "set (std_sort cmp xs) = set xs"
  by (metis mset_std_sort set_mset_mset)

lemma length_std_sort: "length (std_sort cmp xs) = length xs"
  by (metis mset_std_sort size_mset)

lemma set_insert_sorted: "set (insert_sorted cmp x xs) = insert x (set xs)"
  by (metis mset_insert_sorted set_mset_add_mset_insert set_mset_mset)

lemma sorted_insert_sorted:
  assumes asym: "\<And>a b. cmp a b \<Longrightarrow> \<not> cmp b a"
    and ntrans: "\<And>a b c. \<not> cmp b a \<Longrightarrow> \<not> cmp c b \<Longrightarrow> \<not> cmp c a"
    and "sorted_wrt (\<lambda>a b. \<not> cmp b a) xs"
  shows "sorted_wrt (\<lambda>a b. \<not> cmp b a) (insert_sorted cmp x xs)"
  using assms(3)
proof (induction xs)
  case Nil
  then show ?case by simp
next
  case (Cons y ys)
  show ?case
  proof (cases "cmp y x")
    case True
    with Cons asym show ?thesis
      by (auto simp: set_insert_sorted)
  next
    case False
    with Cons ntrans show ?thesis
      by auto
  qed
qed

lemma sorted_std_sort:
  assumes asym: "\<And>a b. cmp a b \<Longrightarrow> \<not> cmp b a"
    and ntrans: "\<And>a b c. \<not> cmp b a \<Longrightarrow> \<not> cmp c b \<Longrightarrow> \<not> cmp c a"
  shows "sorted_wrt (\<lambda>a b. \<not> cmp b a) (std_sort cmp xs)"
  unfolding std_sort_def
  by (induction xs) (simp_all add: sorted_insert_sorted [OF asym ntrans])

lemma largest_magn_asym: "largest_magn_comp a b \<Longrightarrow> \<not> largest_magn_comp b a"
  by (auto simp: largest_magn_comp_def)

lemma largest_magn_ntrans:
  "\<not> largest_magn_comp b a \<Longrightarrow> \<not> largest_magn_comp c b \<Longrightarrow> \<not> largest_magn_comp c a"
  by (auto simp: largest_magn_comp_def)

lemma largest_magn_sorted:
  "sorted_wrt (\<lambda>a b. cmod (fst b) \<le> cmod (fst a)) (std_sort largest_magn_comp xs)"
proof -
  have "sorted_wrt (\<lambda>a b. \<not> largest_magn_comp b a) (std_sort largest_magn_comp xs)"
    by (rule sorted_std_sort) (auto dest: largest_magn_asym largest_magn_ntrans)
  then show ?thesis
    by (rule sorted_wrt_mono_rel [rotated]) (auto simp: largest_magn_comp_def)
qed

text \<open>The pairs (value, index) built from the first n entries and sorted.\<close>

lemma sorted_pairs_index:
  assumes "p \<in> set (std_sort cmp (map (\<lambda>i. (xs ! i, int i)) [0..<n]))"
  shows "fst p = xs ! nat (snd p) \<and> nat (snd p) < n"
  using assms by (auto simp: set_std_sort)

lemma sorted_pairs_perm:
  "mset (map (\<lambda>p. nat (snd p)) (std_sort cmp (map (\<lambda>i. (xs ! i, int i)) [0..<n]))) = mset [0..<n]"
proof -
  have "mset (map (\<lambda>p. nat (snd p)) (std_sort cmp (map (\<lambda>i. (xs ! i, int i)) [0..<n])))
        = image_mset (\<lambda>p. nat (snd p)) (mset (map (\<lambda>i. (xs ! i, int i)) [0..<n]))"
    by (simp add: mset_std_sort)
  also have "\<dots> = mset (map (\<lambda>i. i) [0..<n])"
    by (simp add: image_mset.compositionality comp_def del: mset_upt)
  finally show ?thesis by simp
qed

lemma factorize_step_ritz: "same_ritz st (factorize_step op st i)"
  by (simp add: factorize_step_def same_ritz_def Let_def)

lemma same_ritz_trans: "same_ritz a b \<Longrightarrow> same_ritz b c \<Longrightarrow> same_ritz a c"
  by (simp add: same_ritz_def)

lemma fold_factorize_step_ritz:
  "same_ritz st (fold (\<lambda>i s. factorize_step op s i) is st)"
proof (induction "is" arbitrary: st)
  case Nil
  then show ?case by (simp add: same_ritz_def)
next
  case (Cons i "is")
  show ?case
    using same_ritz_trans [OF factorize_step_ritz Cons] by simp
qed

lemma factorize_from_ritz: "same_ritz st (factorize_from op st from_k to_m fk)"
proof (cases "to_m \<le> from_k")
  case True
  then show ?thesis by (simp add: factorize_from_def same_ritz_def)
next
  case False
  have "same_ritz st (st\<lparr>fac_H := H, fac_f := fk\<rparr>)" for H
    by (simp add: same_ritz_def)
  then show ?thesis
    using False
    by (auto simp: factorize_from_def Let_def intro: same_ritz_trans fold_factorize_step_ritz)
qed

lemma retrieve_ritzpair_dims:
  "nev (retrieve_ritzpair be st) = nev st"
  "ncv (retrieve_ritzpair be st) = ncv st"
  "prec (retrieve_ritzpair be st) = prec st"
  "ritz_conv (retrieve_ritzpair be st) = ritz_conv st"
  "length (ritz_val (retrieve_ritzpair be st)) = length (ritz_val st)"
  "length (ritz_vec (retrieve_ritzpair be st)) = length (ritz_vec st)"
  by (simp_all add: retrieve_ritzpair_def Let_def length_assign_head split: prod.splits)

lemma retrieve_ritzpair_ritz_dims: "ritz_dims st \<Longrightarrow> ritz_dims (retrieve_ritzpair be st)"
  by (simp add: ritz_dims_def retrieve_ritzpair_dims)

lemma same_ritz_dims: "same_ritz s t \<Longrightarrow> ritz_dims s \<Longrightarrow> ritz_dims t"
  by (simp add: same_ritz_def ritz_dims_def)

lemma restart_ritz_dims:
  assumes "restart be st k = Inr st'" "ritz_dims st"
  shows "ritz_dims st'"
proof (cases "k \<ge> ncv st")
  case True
  with assms show ?thesis by (simp add: restart_def)
next
  case False
  with assms(1) obtain V H em emk fk where
    st': "st' = retrieve_ritzpair be (factorize_from (perform_op be) (st\<lparr>fac_V := V, fac_H := H\<rparr>) k (ncv st) fk)"
    by (auto simp: restart_def Let_def split: sum.splits prod.splits)
  have "ritz_dims (st\<lparr>fac_V := V, fac_H := H\<rparr>)"
    using assms(2) by (simp add: ritz_dims_def)
  then have "ritz_dims (factorize_from (perform_op be) (st\<lparr>fac_V := V, fac_H := H\<rparr>) k (ncv st) fk)"
    by (rule same_ritz_dims [OF factorize_from_ritz])
  then show ?thesis
    unfolding st' by (rule retrieve_ritzpair_ritz_dims)
qed

lemma num_converged_dims:
  assumes "num_converged st tol = (st1, c)" "ritz_dims st"
  shows "ritz_dims st1" "nev st1 = nev st"
  using assms by (auto simp: num_converged_def Let_def ritz_dims_def)

lemma compute_loop_dims:
  "compute_loop be maxit tol i nconv st = Inr (s, j, c) \<Longrightarrow> ritz_dims st \<Longrightarrow> ritz_dims s"
proof (induction be maxit tol i nconv st rule: compute_loop.induct)
  case (1 be maxit tol i nconv st)
  show ?case
  proof (cases "i < maxit")
    case False
    with "1.prems" show ?thesis by simp
  next
    case True
    obtain st1 nconv1 where nc: "num_converged st tol = (st1, nconv1)"
      by (cases "num_converged st tol")
    have d1: "ritz_dims st1" using num_converged_dims(1) [OF nc "1.prems"(2)] .
    show ?thesis
    proof (cases "nconv1 \<ge> nev st1")
      case True
      with \<open>i < maxit\<close> nc "1.prems"(1) d1 show ?thesis by simp
    next
      case False
      with \<open>i < maxit\<close> nc "1.prems"(1) obtain nev_adj st2 where
        adj: "nev_adjusted st1 nconv1 = Inr nev_adj" and
        rs: "restart be st1 nev_adj = Inr st2" and
        rec: "compute_loop be maxit tol (i + 1) nconv1 st2 = Inr (s, j, c)"
        by (auto split: sum.splits)
      have "ritz_dims st2" using restart_ritz_dims [OF rs d1] .
      with "1.IH" [OF True nc [symmetric] _ adj rs rec] False show ?thesis
        by simp
    qed
  qed
qed

lemma restart_nev:
  assumes "restart be st k = Inr st'"
  shows "nev st' = nev st"
proof (cases "k \<ge> ncv st")
  case True
  with assms show ?thesis by (simp add: restart_def)
next
  case False
  with assms(1) obtain V H fk where
    st': "st' = retrieve_ritzpair be (factorize_from (perform_op be) (st\<lparr>fac_V := V, fac_H := H\<rparr>) k (ncv st) fk)"
    by (auto simp: restart_def Let_def split: sum.splits prod.splits)
  have "same_ritz (st\<lparr>fac_V := V, fac_H := H\<rparr>)
          (factorize_from (perform_op be) (st\<lparr>fac_V := V, fac_H := H\<rparr>) k (ncv st) fk)"
    by (rule factorize_from_ritz)
  then show ?thesis
    unfolding st' by (simp add: retrieve_ritzpair_dims same_ritz_def)
qed

lemma num_converged_nev: "num_converged st tol = (st1, c) \<Longrightarrow> nev st1 = nev st"
  by (auto simp: num_converged_def Let_def)

lemma compute_loop_nev:
  "compute_loop be maxit tol i nconv st = Inr (s, j, c) \<Longrightarrow> nev s = nev st"
proof (induction be maxit tol i nconv st rule: compute_loop.induct)
  case (1 be maxit tol i nconv st)
  show ?case
  proof (cases "i < maxit")
    case False
    with "1.prems" show ?thesis by simp
  next
    case True
    obtain st1 nconv1 where nc: "num_converged st tol = (st1, nconv1)"
      by (cases "num_converged st tol")
    have n1: "nev st1 = nev st" using num_converged_nev [OF nc] .
    show ?thesis
    proof (cases "nconv1 \<ge> nev st1")
      case True
      with \<open>i < maxit\<close> nc "1.prems"(1) n1 show ?thesis by simp
    next
      case False
      with \<open>i < maxit\<close> nc "1.prems"(1) obtain nev_adj st2 where
        adj: "nev_adjusted st1 nconv1 = Inr nev_adj" and
        rs: "restart be st1 nev_adj = Inr st2" and
        rec: "compute_loop be maxit tol (i + 1) nconv1 st2 = Inr (s, j, c)"
        by (auto split: sum.splits)
      from "1.IH" [OF True nc [symmetric] _ adj rs rec] False restart_nev [OF rs] n1
      show ?thesis by simp
    qed
  qed
qed

text \<open>What the base sort does to a state with at least nev Ritz values.\<close>

lemma sort_ritzpair_fields:
  "nev (sort_ritzpair st) = nev st" "ncv (sort_ritzpair st) = ncv st"
  "niter (sort_ritzpair st) = niter st"
  "length (ritz_val (sort_ritzpair st)) = length (ritz_val st)"
  by (simp_all add: sort_ritzpair_def Let_def length_assign_head)

lemma sort_ritzpair_permutes:
  assumes "nat (nev st) \<le> length (ritz_val st)"
  shows "mset (sort_perm st) = mset [0..<nat (nev st)]"
    and "permuted_by (sort_perm st) (nat (nev st)) (ritz_val st) (ritz_val (sort_ritzpair st))"
    and "permuted_by (sort_perm st) (nat (nev st)) (ritz_vec st) (ritz_vec (sort_ritzpair st))"
    and "permuted_by (sort_perm st) (nat (nev st)) (ritz_conv st) (ritz_conv (sort_ritzpair st))"
    and "decreasing_magnitude (nat (nev st)) (ritz_val (sort_ritzpair st))"
    and "drop (nat (nev st)) (ritz_val (sort_ritzpair st)) = drop (nat (nev st)) (ritz_val st)"
proof -
  let ?n = "nat (nev st)"
  let ?pairs = "std_sort largest_magn_comp (map (\<lambda>i. (ritz_val st ! i, int i)) [0..<?n])"
  have len: "length ?pairs = ?n" by (simp add: length_std_sort)
  have val: "ritz_val (sort_ritzpair st) ! i = fst (?pairs ! i)" if "i < ?n" for i
    using that assms len by (simp add: sort_ritzpair_def Let_def nth_assign_head)
  have idx: "fst (?pairs ! i) = ritz_val st ! nat (snd (?pairs ! i))" if "i < ?n" for i
    using sorted_pairs_index [of "?pairs ! i" largest_magn_comp "ritz_val st" ?n] that len
    by simp
  show "mset (sort_perm st) = mset [0..<?n]"
    unfolding sort_perm_def by (rule sorted_pairs_perm)
  show "permuted_by (sort_perm st) ?n (ritz_val st) (ritz_val (sort_ritzpair st))"
    using len by (simp add: permuted_by_def sort_perm_def val idx)
  show "permuted_by (sort_perm st) ?n (ritz_vec st) (ritz_vec (sort_ritzpair st))"
    using len by (simp add: permuted_by_def sort_perm_def sort_ritzpair_def Let_def)
  show "permuted_by (sort_perm st) ?n (ritz_conv st) (ritz_conv (sort_ritzpair st))"
    using len by (simp add: permuted_by_def sort_perm_def sort_ritzpair_def Let_def)
  have "sorted_wrt (\<lambda>a b. cmod (fst b) \<le> cmod (fst a)) ?pairs"
    by (rule largest_magn_sorted)
  then have "cmod (fst (?pairs ! j)) \<le> cmod (fst (?pairs ! i))" if "i \<le> j" "j < ?n" for i j
    using that len by (cases "i = j") (auto simp: sorted_wrt_iff_nth_less)
  then show "decreasing_magnitude ?n (ritz_val (sort_ritzpair st))"
    by (simp add: decreasing_magnitude_def val)
  show "drop ?n (ritz_val (sort_ritzpair st)) = drop ?n (ritz_val st)"
    by (rule nth_equalityI)
      (simp_all add: sort_ritzpair_def Let_def length_assign_head nth_assign_head)
qed

subsection \<open>The restart width\<close>

text \<open>
  Where the subspace has at least three Ritz values: for a solver with \<open>1 \<le> nev < ncv\<close>,
  \<open>ncv \<ge> 3\<close> and \<open>ncv\<close> Ritz values, and for every \<open>nconv \<ge> 0\<close>, \<^verbatim>\<open>nev_adjusted(nconv)\<close>
  returns the value of the six-step heuristic: start from \<open>nev\<close>, add one if the values at
  \<open>nev - 1\<close> and \<open>nev\<close> are a conjugate pair, add \<open>min(nconv, \<lfloor>(ncv - k) / 2\<rfloor>)\<close>, replace 1
  by \<open>ncv / 2\<close> (\<open>ncv \<ge> 6\<close>) or by 2 (\<open>ncv > 3\<close>), clamp to \<open>ncv - 2\<close>, and add one if a
  conjugate pair straddles the new boundary.
\<close>

lemma nev_adjusted_at_least_three_ritz_values:
  assumes "1 \<le> nev st" "nev st < ncv st" "3 \<le> ncv st"
    and "int (length (ritz_val st)) = ncv st" "0 \<le> nconv"
  shows "nev_adjusted st nconv =
           Inr (adjust_k (prec st) (ritz_val st) (nev st) (ncv st) nconv)"
proof -
  let ?b1 = "conj_pair_splits (prec st) (ritz_val st) (nev st)"
  have first: "complex_and_conj st (nev st - 1) = Inr ?b1"
    using assms by (simp add: complex_and_conj_in_range conj_pair_splits_def)
  define k2 where "k2 = (if ?b1 then nev st + 1 else nev st)"
  have k2: "1 \<le> k2" "k2 \<le> ncv st" using assms by (auto simp: k2_def)
  define k3 where "k3 = k2 + min nconv (cpp_div (ncv st - k2) 2)"
  have half: "cpp_div (ncv st - k2) 2 = (ncv st - k2) div 2"
    using k2 by (simp add: cpp_div_nonneg)
  have k3: "1 \<le> k3" using k2 assms by (simp add: k3_def half)
  define k4 where "k4 = (if k3 = 1 \<and> ncv st \<ge> 6 then cpp_div (ncv st) 2
                         else if k3 = 1 \<and> ncv st > 3 then 2 else k3)"
  have half': "cpp_div (ncv st) 2 = ncv st div 2"
    using assms by (simp add: cpp_div_nonneg)
  have k4: "1 \<le> k4" using k3 assms by (auto simp: k4_def half')
  define k5 where "k5 = (if k4 > ncv st - 2 then ncv st - 2 else k4)"
  have k5: "1 \<le> k5" "k5 \<le> ncv st - 2" using k4 assms by (auto simp: k5_def)
  let ?b2 = "conj_pair_splits (prec st) (ritz_val st) k5"
  have second: "complex_and_conj st (k5 - 1) = Inr ?b2"
    using k5 assms by (simp add: complex_and_conj_in_range conj_pair_splits_def)
  have code: "nev_adjusted st nconv = Inr (if ?b2 then k5 + 1 else k5)"
    unfolding nev_adjusted_def first
    by (simp only: sum.case Let_def k2_def [symmetric] k3_def [symmetric]
          k4_def [symmetric] k5_def [symmetric] second)
  have spec: "adjust_k (prec st) (ritz_val st) (nev st) (ncv st) nconv
                = (if ?b2 then k5 + 1 else k5)"
  proof -
    have a3: "k2 + min nconv (\<lfloor>real_of_int (ncv st - k2) / 2\<rfloor>) = k3"
      by (simp only: k3_def half floor_half)
    have a4: "(if k3 = 1 then (if ncv st \<ge> 6 then ncv st div 2
                 else if ncv st > 3 then 2 else k3) else k3) = k4"
      by (simp add: k4_def half')
    have a5: "min k4 (ncv st - 2) = k5"
      by (simp add: k5_def min_def)
    show ?thesis
      unfolding adjust_k_def
      by (simp only: Let_def k2_def [symmetric] a3 a4 a5)
  qed
  show ?thesis by (simp only: code spec)
qed

lemma ritz_example_pair_at_2:
  "conj_pair_splits (1 / 1000) [5, Complex 2 1, Complex 2 (- 1), 1, Complex 0 (1 / 2), 0] 2"
  by (simp add: conj_pair_splits_def is_complex_def is_conj_def cmod_def)

lemma ritz_example_no_pair_at_4:
  "\<not> conj_pair_splits (1 / 1000) [5, Complex 2 1, Complex 2 (- 1), 1, Complex 0 (1 / 2), 0] 4"
  by (simp add: conj_pair_splits_def is_complex_def is_conj_def cmod_def)

lemma ritz_example_adjust_k:
  "adjust_k (1 / 1000) [5, Complex 2 1, Complex 2 (- 1), 1, Complex 0 (1 / 2), 0] 2 6 1 = 4"
  by (simp add: adjust_k_def ritz_example_pair_at_2 ritz_example_no_pair_at_4 floor_half)

lemma nev_adjusted_ritz_example: "nev_adjusted ritz_example 1 = Inr 4"
proof -
  have "nev_adjusted ritz_example 1 =
          Inr (adjust_k (prec ritz_example) (ritz_val ritz_example)
                 (nev ritz_example) (ncv ritz_example) 1)"
    by (rule nev_adjusted_at_least_three_ritz_values) (simp_all add: ritz_example_def)
  then show ?thesis
    by (simp add: ritz_example_def ritz_example_adjust_k)
qed

text \<open>
  With two Ritz values and one wanted value, which the constructor admits, the first test
  reads \<^verbatim>\<open>ritz_val[0]\<close> and at most \<^verbatim>\<open>ritz_val[1]\<close> and leaves 1 or 2, step 3 adds at most
  \<open>(ncv - nev_new) / 2 = 0\<close>, step 4 does not apply since \<open>ncv \<le> 3\<close>, step 5 leaves at most the
  boundary \<open>ncv - 2 = 0\<close>, and the test of step 6 reads \<^verbatim>\<open>ritz_val[nev_new - 1]\<close> at a
  negative index, whatever the Ritz values and \<open>nconv\<close> are.
\<close>

lemma nev_adjusted_two_ritz_values:
  assumes "nev st = 1" "ncv st = 2" "length (ritz_val st) = 2"
  shows "nev_adjusted st nconv = Inl IndexOutOfRange"
proof -
  have "complex_and_conj st 0 =
          Inr (is_complex (ritz_val st ! nat 0) (prec st) \<and>
               is_conj (ritz_val st ! nat 0) (ritz_val st ! nat (0 + 1)) (prec st))"
    by (rule complex_and_conj_in_range) (simp_all add: assms)
  then obtain b where b: "complex_and_conj st 0 = Inr b" ..
  have neg: "complex_and_conj st j = Inl IndexOutOfRange" if "j < 0" for j
    using that by (simp add: complex_and_conj_def vec_at_def)
  show ?thesis
    unfolding nev_adjusted_def
    using assms b by (auto simp: Let_def neg split: sum.splits)
qed

subsection \<open>The example run\<close>

declare compute_loop.simps [simp del] restart_loop.simps [simp del]

lemma example_op:
  "mat_vec [[1, 2, 0], [0, 2, 2], [0, 0, 3]] [a, b, c] = [a, 2 * a + 2 * b, 2 * b + 3 * c]"
  by (simp add: mat_vec_def mat_rows_def upt_rec)

lemma example_step1:
  "factorize_step (mat_vec [[1, 2, 0], [0, 2, 2], [0, 0, 3]])
     (example_solver\<lparr>fac_H := [[1, 0, 0], [0, 0, 0], [0, 0, 0]], fac_f := [0, 2, 0]\<rparr>) 1
   = example_solver\<lparr>nmatop := 2, fac_V := [[1, 0, 0], [0, 1, 0], [0, 0, 0]],
           fac_H := [[1, 2, 0], [0, 2, 0], [0, 0, 0]], fac_f := [0, 0, 2]\<rparr>"
  by (simp add: factorize_step_def Let_def example_solver_def vec_norm_def dot_def
        block_setZero_def upto_rec1 mat_put_def example_op tmat_vec_def vec_sub_def mat_vec_def
        mat_rows_def upt_rec)

lemma example_step2:
  "factorize_step (mat_vec [[1, 2, 0], [0, 2, 2], [0, 0, 3]])
     (example_solver\<lparr>nmatop := 2, fac_V := [[1, 0, 0], [0, 1, 0], [0, 0, 0]],
           fac_H := [[1, 2, 0], [0, 2, 0], [0, 0, 0]], fac_f := [0, 0, 2]\<rparr>) 2
   = example_factorized"
  by (simp add: factorize_step_def Let_def example_solver_def example_factorized_def
        vec_norm_def dot_def block_setZero_def upto_rec1 mat_put_def example_op tmat_vec_def
        vec_sub_def mat_vec_def mat_rows_def upt_rec)

lemma example_zero:
  "block_setZero (block_setZero [[1, 0, 0], [0, 0, 0], [0, 0, 0]] 0 1 3 (3 - 1)) 1 0 (3 - 1) 1
     = [[1, 0, 0], [0, 0, 0], [0, 0, 0]]"
  by (simp add: block_setZero_def upto_rec1 mat_put_def)

lemma example_factorize:
  "factorize_from (perform_op example_backend) example_solver 1 (ncv example_solver)
     (fac_f example_solver) = example_factorized"
proof -
  have a: "ncv example_solver = 3" "fac_f example_solver = [0, 2, 0]"
    "fac_H example_solver = [[1, 0, 0], [0, 0, 0], [0, 0, 0]]"
    "perform_op example_backend = mat_vec [[1, 2, 0], [0, 2, 2], [0, 0, 3]]"
    by (simp_all add: example_solver_def example_backend_def)
  have l: "[1..3 - 1] = [1, 2::int]" by (simp add: upto_rec1)
  show ?thesis
    unfolding factorize_from_def a Let_def example_zero l
    by (simp add: example_step1 example_step2)
qed

lemma example_sort_selection:
  "std_sort (\<lambda>a b. cmod (fst a) < cmod (fst b)) [(1, 0), (2, 1), (3, 2::int)]
     = [(1, 0), (2, 1), (3, 2)]"
  by (simp add: std_sort_def)

lemma example_retrieve: "retrieve_ritzpair example_backend example_factorized = example_retrieved"
  by (simp add: retrieve_ritzpair_def example_backend_def example_factorized_def
        example_retrieved_def Let_def upt_rec example_sort_selection assign_head_def)

lemma example_num_converged:
  "num_converged example_retrieved (1 / 10000000000) = (example_converged, 2)"
  by (simp add: num_converged_def example_retrieved_def example_converged_def
        example_factorized_def Let_def vec_norm_def dot_def)

lemma example_loop:
  "compute_loop example_backend 1 (1 / 10000000000) 0 nconv0 example_retrieved
     = Inr (example_converged, 0, 2)"
proof -
  have "nev example_converged = 2"
    by (simp add: example_converged_def example_retrieved_def example_factorized_def)
  then show ?thesis
    by (subst compute_loop.simps) (simp add: example_num_converged)
qed

lemma example_sort_final: "std_sort largest_magn_comp [(1, 0), (2, 1::int)] = [(2, 1), (1, 0)]"
  by (simp add: std_sort_def largest_magn_comp_def)

lemma example_sort_ritzpair:
  "sort_ritzpair example_converged =
     example_converged\<lparr>ritz_val := [2, 1, 3], ritz_vec := [[0, 1, - 2], [1, - 2, 2]],
       ritz_conv := [True, True]\<rparr>"
  by (simp add: sort_ritzpair_def example_converged_def example_retrieved_def
        example_factorized_def Let_def upt_rec example_sort_final assign_head_def)

lemma example_compute:
  "compute example_backend GenEigsSolver nconv0 1 (1 / 10000000000) example_solver =
     Inr (example_converged\<lparr>ritz_val := [2, 1, 3], ritz_vec := [[0, 1, - 2], [1, - 2, 2]],
            ritz_conv := [True, True], niter := 1\<rparr>, 2)"
  unfolding compute_def example_factorize Let_def example_retrieve example_loop
  by (simp add: example_sort_ritzpair)
    (simp add: example_converged_def example_retrieved_def example_factorized_def)

lemma example_sort_shifted:
  "std_sort largest_magn_comp [(0, 0), (- (1 / 2), 1::int)] = [(- (1 / 2), 1), (0, 0)]"
  by (simp add: std_sort_def largest_magn_comp_def norm_divide)

lemma example_shift_sort:
  "real_shift_sort_ritzpair (- 1) example_converged =
     example_converged\<lparr>ritz_val := [- (1 / 2), 0, 3],
       ritz_vec := [[0, 1, - 2], [1, - 2, 2]], ritz_conv := [True, True]\<rparr>"
  by (simp add: real_shift_sort_ritzpair_def sort_ritzpair_def example_converged_def
        example_retrieved_def example_factorized_def Let_def upt_rec example_sort_shifted
        assign_head_def)

lemma example_compute_shift:
  "compute example_backend (GenEigsRealShiftSolver (- 1)) nconv0 1 (1 / 10000000000)
     example_solver =
     Inr (example_converged\<lparr>ritz_val := [- (1 / 2), 0, 3],
            ritz_vec := [[0, 1, - 2], [1, - 2, 2]], ritz_conv := [True, True], niter := 1\<rparr>, 2)"
  unfolding compute_def example_factorize Let_def example_retrieve example_loop
  by (simp add: example_shift_sort)
    (simp add: example_converged_def example_retrieved_def example_factorized_def)

lemma example_solver_dims: "ritz_dims example_solver"
  by (simp add: ritz_dims_def example_solver_def)

text \<open>
  The constructor and \<^verbatim>\<open>init\<close> establish these sizes, and the example solver is the state
  they produce.
\<close>

lemma new_solver_bounds:
  assumes "new_solver eps23 n nev0 ncv0 = Inr st"
  shows "1 \<le> nev st \<and> nev st < ncv st \<and> ncv st \<le> dim_n st"
  using assms by (auto simp: new_solver_def split: if_splits)

lemma init_ritz_dims:
  assumes "init be st init_resid = Inr st'" "1 \<le> nev st" "nev st < ncv st"
  shows "ritz_dims st'"
  using assms by (auto simp: init_def Let_def ritz_dims_def split: if_splits)

lemma example_solver_init:
  "\<exists>st0. new_solver (1 / 10000000000) 3 2 3 = Inr st0 \<and>
         init example_backend st0 [1, 0, 0] = Inr example_solver"
proof -
  have n: "vec_norm [1, 0, 0] = 1" by (simp add: vec_norm_def dot_def)
  have r: "replicate 3 x = [x, x, x]" "replicate 2 x = [x, x]" for x :: 'a
    by (simp_all add: numeral_3_eq_3 numeral_2_eq_2)
  show ?thesis
    by (simp add: new_solver_def init_def Let_def n r example_backend_def example_solver_def
          example_op dot_def mat_put_def mat_get_def vec_sub_def vec_scale_def)
qed

subsection \<open>The restart width with two Ritz values\<close>

text \<open>The constructor accepts the sizes of the run, and \<^verbatim>\<open>init\<close> gives its first state.\<close>

lemma two_value_init:
  "\<exists>st0. new_solver (1 / 10000000000) 3 1 2 = Inr st0 \<and>
         init two_value_backend st0 [1, 0, 0] = Inr two_value_solver"
proof -
  have n: "vec_norm [1, 0, 0] = 1" by (simp add: vec_norm_def dot_def)
  have r: "replicate 3 x = [x, x, x]" "replicate 2 x = [x, x]" for x :: 'a
    by (simp_all add: numeral_3_eq_3 numeral_2_eq_2)
  show ?thesis
    by (simp add: new_solver_def init_def Let_def n r two_value_backend_def two_value_solver_def
          example_op dot_def mat_put_def mat_get_def vec_sub_def vec_scale_def)
qed

text \<open>The eigenvalue routine of the run returns eigenpairs of the matrix \<^verbatim>\<open>fac_H\<close>.\<close>

lemma two_value_eigenpairs:
  "map (mat_vec (fac_H two_value_factorized)) [[1, - 2], [0, 1]]
     = map2 (\<lambda>l y. map ((*) l) y) [1, 2] [[1, - 2], [0, 1]]"
  by (simp add: two_value_factorized_def mat_vec_def mat_rows_def upt_rec)

lemma two_value_step:
  "factorize_step (mat_vec [[1, 2, 0], [0, 2, 2], [0, 0, 3]]) two_value_solver 1
     = two_value_factorized"
  by (simp add: factorize_step_def Let_def two_value_solver_def two_value_factorized_def
        vec_norm_def dot_def block_setZero_def upto_rec1 mat_put_def example_op tmat_vec_def
        vec_sub_def mat_vec_def mat_rows_def upt_rec)

lemma two_value_factorize:
  "factorize_from (perform_op two_value_backend) two_value_solver 1 (ncv two_value_solver)
     (fac_f two_value_solver) = two_value_factorized"
proof -
  have a: "ncv two_value_solver = 2" "fac_f two_value_solver = [0, 2, 0]"
    "fac_H two_value_solver = [[1, 0], [0, 0]]"
    "perform_op two_value_backend = mat_vec [[1, 2, 0], [0, 2, 2], [0, 0, 3]]"
    by (simp_all add: two_value_solver_def two_value_backend_def)
  have l: "[1..2 - 1] = [1::int]" by (simp add: upto_rec1)
  have z: "block_setZero (block_setZero [[1, 0], [0, 0]] 0 1 2 (2 - 1)) 1 0 (2 - 1) 1
             = [[1, 0], [0, 0]]"
    by (simp add: block_setZero_def upto_rec1 mat_put_def)
  have same: "two_value_solver\<lparr>fac_H := [[1, 0], [0, 0]], fac_f := [0, 2, 0]\<rparr> = two_value_solver"
    by (simp add: two_value_solver_def)
  show ?thesis
    unfolding factorize_from_def a Let_def z l
    by (simp add: same two_value_step)
qed

lemma two_value_sort:
  "std_sort largest_magn_comp [(1, 0), (2, 1::int)] = [(2, 1), (1, 0)]"
  by (simp add: std_sort_def largest_magn_comp_def)

lemma two_value_retrieve:
  "retrieve_ritzpair two_value_backend two_value_factorized = two_value_retrieved"
  by (simp add: retrieve_ritzpair_def two_value_backend_def two_value_factorized_def
        two_value_retrieved_def Let_def upt_rec two_value_sort assign_head_def)

text \<open>
  The wanted Ritz value has not converged: its residual estimate is \<open>|1| \<parallel>f\<parallel> = 2\<close>, against
  the threshold \<open>2 tol\<close> with \<open>tol = 10\<^sup>-\<^sup>1\<^sup>0\<close>.
\<close>

lemma two_value_num_converged:
  "num_converged two_value_retrieved (1 / 10000000000) = (two_value_retrieved, 0)"
  by (simp add: num_converged_def two_value_retrieved_def two_value_factorized_def Let_def
        vec_norm_def dot_def)

text \<open>
  Claim C5 fails on the code. The claim is for every sorted vector of Ritz values; the
  constructor admits \<open>nev = 1\<close>, \<open>ncv = 2\<close>, and there the clamp of step 5 leaves the
  boundary \<open>ncv - 2 = 0\<close>, so that the conjugate-pair test of step 6 reads \<^verbatim>\<open>ritz_val[-1]\<close>,
  before the first Ritz value: \<^verbatim>\<open>nev_adjusted\<close> computes no value of the heuristic, for any
  \<open>nconv\<close>. The state is one \<^verbatim>\<open>compute\<close> produces: with the default arguments, the run on the
  3 by 3 operator ends in that read during its first iteration, whatever the uninitialised
  \<^verbatim>\<open>nconv\<close> held.
\<close>

theorem nev_adjusted_reads_before_first_ritz_value:
  "nev_adjusted two_value_retrieved nconv = Inl IndexOutOfRange \<and>
   compute two_value_backend GenEigsSolver nconv0 1000 (1 / 10000000000) two_value_solver
     = Inl IndexOutOfRange"
proof -
  have a: "nev two_value_retrieved = 1" "ncv two_value_retrieved = 2"
    "length (ritz_val two_value_retrieved) = 2"
    by (simp_all add: two_value_retrieved_def two_value_factorized_def)
  have adj: "nev_adjusted two_value_retrieved n = Inl IndexOutOfRange" for n
    using a by (rule nev_adjusted_two_ritz_values)
  have loop: "compute_loop two_value_backend 1000 (1 / 10000000000) 0 nconv0 two_value_retrieved
                = Inl IndexOutOfRange"
    by (subst compute_loop.simps) (simp add: two_value_num_converged a adj)
  have run: "compute two_value_backend GenEigsSolver nconv0 1000 (1 / 10000000000)
               two_value_solver = Inl IndexOutOfRange"
    unfolding compute_def two_value_factorize Let_def two_value_retrieve loop by simp
  from adj run show ?thesis by simp
qed

subsection \<open>The final sort\<close>

text \<open>
  Claim C6. When \<^verbatim>\<open>compute\<close> of the base solver returns, with \<open>s\<close> the state at the exit
  of its restart loop, the first \<open>nev\<close> Ritz values of the final state have decreasing
  magnitude, whatever the comparator of the selection rule of the iteration is, and one
  permutation \<open>ps\<close> of the indices below \<open>nev\<close> takes the values, the Ritz vectors and the
  convergence flags of \<open>s\<close> to those of the final state.
\<close>

theorem compute_final_sort:
  assumes dims: "ritz_dims st"
    and ret: "compute be GenEigsSolver nconv0 maxit tol st = Inr (st', r)"
  shows "\<exists>s i nconv ps.
           compute_loop be maxit tol 0 nconv0
             (retrieve_ritzpair be (factorize_from (perform_op be) st 1 (ncv st) (fac_f st)))
             = Inr (s, i, nconv) \<and>
           mset ps = mset [0..<nat (nev st)] \<and>
           permuted_by ps (nat (nev st)) (ritz_val s) (ritz_val st') \<and>
           permuted_by ps (nat (nev st)) (ritz_vec s) (ritz_vec st') \<and>
           permuted_by ps (nat (nev st)) (ritz_conv s) (ritz_conv st') \<and>
           decreasing_magnitude (nat (nev st)) (ritz_val st')"
proof -
  let ?st1 = "factorize_from (perform_op be) st 1 (ncv st) (fac_f st)"
  let ?st2 = "retrieve_ritzpair be ?st1"
  from ret obtain s i nconv where
    loop: "compute_loop be maxit tol 0 nconv0 ?st2 = Inr (s, i, nconv)" and
    st': "st' = (sort_ritzpair s)\<lparr>niter := niter (sort_ritzpair s) + (i + 1)\<rparr>"
    by (auto simp: compute_def Let_def split: sum.splits)
  have r1: "same_ritz st ?st1" by (rule factorize_from_ritz)
  have d2: "ritz_dims ?st2"
    by (rule retrieve_ritzpair_ritz_dims) (rule same_ritz_dims [OF r1 dims])
  have ds: "ritz_dims s" by (rule compute_loop_dims [OF loop d2])
  have nev: "nev s = nev st"
    using compute_loop_nev [OF loop] r1 by (simp add: retrieve_ritzpair_dims same_ritz_def)
  have le: "nat (nev s) \<le> length (ritz_val s)"
    using ds unfolding ritz_dims_def by linarith
  note P = sort_ritzpair_permutes [OF le]
  have "mset (sort_perm s) = mset [0..<nat (nev st)] \<and>
        permuted_by (sort_perm s) (nat (nev st)) (ritz_val s) (ritz_val st') \<and>
        permuted_by (sort_perm s) (nat (nev st)) (ritz_vec s) (ritz_vec st') \<and>
        permuted_by (sort_perm s) (nat (nev st)) (ritz_conv s) (ritz_conv st') \<and>
        decreasing_magnitude (nat (nev st)) (ritz_val st')"
    using P(1-5) by (simp add: st' nev)
  with loop show ?thesis by blast
qed

theorem compute_final_sort_witness:
  "\<exists>st'. compute example_backend GenEigsSolver 0 1 (1 / 10000000000) example_solver = Inr (st', 2) \<and>
         ritz_val st' = [2, 1, 3] \<and> decreasing_magnitude 2 (ritz_val st')"
proof -
  let ?st' = "example_converged\<lparr>ritz_val := [2, 1, 3], ritz_vec := [[0, 1, - 2], [1, - 2, 2]],
                ritz_conv := [True, True], niter := 1\<rparr>"
  have c: "compute example_backend GenEigsSolver 0 1 (1 / 10000000000) example_solver = Inr (?st', 2)"
    by (rule example_compute)
  from compute_final_sort [OF example_solver_dims c]
  have "decreasing_magnitude (nat (nev example_solver)) (ritz_val ?st')"
    by blast
  then have "decreasing_magnitude 2 (ritz_val ?st')"
    by (simp add: example_solver_def)
  with c show ?thesis by simp
qed

lemma assign_head_map_take:
  "n \<le> length xs \<Longrightarrow> assign_head n (map f (take n xs)) xs = map f (take n xs) @ drop n xs"
  by (rule nth_equalityI) (auto simp: length_assign_head nth_assign_head nth_append)

text \<open>
  Claim C7. When \<^verbatim>\<open>compute\<close> of the shift-and-invert solver with the real shift \<open>\<sigma>\<close>
  returns, with \<open>s\<close> the state at the exit of its restart loop, the final state is the base
  solver's sort of \<open>s\<close> with each of its first \<open>nev\<close> Ritz values \<open>\<theta>\<close> replaced by
  \<open>1 / \<theta> + \<sigma>\<close>; so every one of the first \<open>nev\<close> final values is \<open>1 / \<theta> + \<sigma>\<close> for the
  value \<open>\<theta>\<close> of \<open>s\<close> that the sort moved there, the transformation being applied once and
  before the sort. (The quotient is that of the field: at \<open>\<theta> = 0\<close> the program divides by
  zero in floating point.)
\<close>

theorem real_shift_final_sort:
  assumes dims: "ritz_dims st"
    and ret: "compute be (GenEigsRealShiftSolver sigma) nconv0 maxit tol st = Inr (st', r)"
  shows "\<exists>s i nconv ps.
           compute_loop be maxit tol 0 nconv0
             (retrieve_ritzpair be (factorize_from (perform_op be) st 1 (ncv st) (fac_f st)))
             = Inr (s, i, nconv) \<and>
           st' = (sort_ritzpair
                    (s\<lparr>ritz_val := map (\<lambda>\<theta>. 1 / \<theta> + complex_of_real sigma)
                                      (take (nat (nev st)) (ritz_val s))
                                    @ drop (nat (nev st)) (ritz_val s)\<rparr>))
                 \<lparr>niter := niter s + (i + 1)\<rparr> \<and>
           mset ps = mset [0..<nat (nev st)] \<and>
           (\<forall>k < nat (nev st).
              ritz_val st' ! k = 1 / (ritz_val s ! (ps ! k)) + complex_of_real sigma) \<and>
           permuted_by ps (nat (nev st)) (ritz_vec s) (ritz_vec st') \<and>
           permuted_by ps (nat (nev st)) (ritz_conv s) (ritz_conv st') \<and>
           decreasing_magnitude (nat (nev st)) (ritz_val st')"
proof -
  let ?st1 = "factorize_from (perform_op be) st 1 (ncv st) (fac_f st)"
  let ?st2 = "retrieve_ritzpair be ?st1"
  let ?f = "\<lambda>\<theta>. 1 / \<theta> + complex_of_real sigma"
  from ret obtain s i nconv where
    loop: "compute_loop be maxit tol 0 nconv0 ?st2 = Inr (s, i, nconv)" and
    st': "st' = (real_shift_sort_ritzpair sigma s)
                  \<lparr>niter := niter (real_shift_sort_ritzpair sigma s) + (i + 1)\<rparr>"
    by (auto simp: compute_def Let_def split: sum.splits)
  have r1: "same_ritz st ?st1" by (rule factorize_from_ritz)
  have d2: "ritz_dims ?st2"
    by (rule retrieve_ritzpair_ritz_dims) (rule same_ritz_dims [OF r1 dims])
  have ds: "ritz_dims s" by (rule compute_loop_dims [OF loop d2])
  have nev: "nev s = nev st"
    using compute_loop_nev [OF loop] r1 by (simp add: retrieve_ritzpair_dims same_ritz_def)
  let ?n = "nat (nev st)"
  have le: "?n \<le> length (ritz_val s)"
    using ds nev unfolding ritz_dims_def by linarith
  let ?t = "s\<lparr>ritz_val := map ?f (take ?n (ritz_val s)) @ drop ?n (ritz_val s)\<rparr>"
  have shift: "real_shift_sort_ritzpair sigma s = sort_ritzpair ?t"
    using le by (simp add: real_shift_sort_ritzpair_def Let_def nev assign_head_map_take)
  have le_t: "nat (nev ?t) \<le> length (ritz_val ?t)"
    using le nev by simp
  note P = sort_ritzpair_permutes [OF le_t]
  have eq: "st' = (sort_ritzpair ?t)\<lparr>niter := niter s + (i + 1)\<rparr>"
    by (simp add: st' shift sort_ritzpair_fields)
  have perm: "mset (sort_perm ?t) = mset [0..<?n]"
    using P(1) by (simp add: nev)
  have inrange: "sort_perm ?t ! k < ?n" if "k < ?n" for k
  proof -
    have "length (sort_perm ?t) = ?n"
      using perm by (metis length_upt mset_eq_length minus_nat.diff_0)
    then have "sort_perm ?t ! k \<in> set (sort_perm ?t)"
      using that by simp
    also have "set (sort_perm ?t) = set [0..<?n]"
      using perm by (rule mset_eq_setD)
    finally show ?thesis by simp
  qed
  have vals: "ritz_val st' ! k = ?f (ritz_val s ! (sort_perm ?t ! k))" if "k < ?n" for k
  proof -
    have "ritz_val st' ! k = ritz_val ?t ! (sort_perm ?t ! k)"
      using P(2) that by (simp add: permuted_by_def eq nev)
    also have "\<dots> = ?f (ritz_val s ! (sort_perm ?t ! k))"
      using inrange [OF that] le by (simp add: nth_append)
    finally show ?thesis .
  qed
  have rest: "permuted_by (sort_perm ?t) ?n (ritz_vec s) (ritz_vec st') \<and>
        permuted_by (sort_perm ?t) ?n (ritz_conv s) (ritz_conv st') \<and>
        decreasing_magnitude ?n (ritz_val st')"
    using P(3-5) by (simp add: eq nev)
  from loop eq perm vals rest show ?thesis by blast
qed

theorem real_shift_final_sort_witness:
  "\<exists>st'. compute example_backend (GenEigsRealShiftSolver (- 1)) 0 1 (1 / 10000000000) example_solver
           = Inr (st', 2) \<and>
         ritz_val st' = [- (1 / 2), 0, 3] \<and> decreasing_magnitude 2 (ritz_val st')"
proof -
  let ?st' = "example_converged\<lparr>ritz_val := [- (1 / 2), 0, 3],
                ritz_vec := [[0, 1, - 2], [1, - 2, 2]], ritz_conv := [True, True], niter := 1\<rparr>"
  have c: "compute example_backend (GenEigsRealShiftSolver (- 1)) 0 1 (1 / 10000000000) example_solver
             = Inr (?st', 2)"
    by (rule example_compute_shift)
  from real_shift_final_sort [OF example_solver_dims c]
  have "decreasing_magnitude (nat (nev example_solver)) (ritz_val ?st')"
    by blast
  then have "decreasing_magnitude 2 (ritz_val ?st')"
    by (simp add: example_solver_def)
  with c show ?thesis by simp
qed

subsection \<open>The convergence test\<close>

text \<open>
  Claim C3. In a state whose \<open>nev\<close> Ritz vectors have \<open>ncv\<close> coefficients each,
  \<^verbatim>\<open>num_converged(tol)\<close> changes the convergence flags only, sets flag \<open>i < nev\<close> to the truth
  value of \<open>|y\<^sub>i[ncv - 1]| \<parallel>f\<parallel> < tol max(\<epsilon>\<^sup>2\<^sup>/\<^sup>3, |\<theta>\<^sub>i|)\<close>, and returns the number of flags
  that are set.
\<close>

theorem num_converged_criterion:
  assumes "int (length (ritz_vec st)) = nev st"
    and "nev st \<le> int (length (ritz_val st))"
    and "\<forall>c \<in> set (ritz_vec st). int (length c) = ncv st"
    and "0 < ncv st"
  shows "fst (num_converged st tol) = st\<lparr>ritz_conv := ritz_conv (fst (num_converged st tol))\<rparr> \<and>
         length (ritz_conv (fst (num_converged st tol))) = nat (nev st) \<and>
         (\<forall>i < nat (nev st).
            ritz_conv (fst (num_converged st tol)) ! i =
              (cmod (ritz_vec st ! i ! nat (ncv st - 1)) * vec_norm (fac_f st)
                 < tol * max (prec st) (cmod (ritz_val st ! i)))) \<and>
         snd (num_converged st tol) =
           int (card {i. i < nat (nev st) \<and> ritz_conv (fst (num_converged st tol)) ! i})"
proof -
  let ?n = "nat (nev st)"
  let ?thresh = "map (\<lambda>\<theta>. tol * max (cmod \<theta>) (prec st)) (take ?n (ritz_val st))"
  let ?resid = "map (\<lambda>c. cmod (last c) * vec_norm (fac_f st)) (ritz_vec st)"
  let ?conv = "map2 (\<lambda>r t. r < t) ?resid ?thresh"
  have res: "num_converged st tol = (st\<lparr>ritz_conv := ?conv\<rparr>, int (length (filter id ?conv)))"
    by (simp add: num_converged_def Let_def)
  have len: "length ?conv = ?n"
    using assms(1,2) by simp
  have bottom: "last (ritz_vec st ! i) = ritz_vec st ! i ! nat (ncv st - 1)" if "i < ?n" for i
  proof -
    have "ritz_vec st ! i \<in> set (ritz_vec st)"
      using that assms(1) by simp
    then have l: "int (length (ritz_vec st ! i)) = ncv st"
      using assms(3) by blast
    then have "ritz_vec st ! i \<noteq> []" using assms(4) by auto
    then have "last (ritz_vec st ! i) = ritz_vec st ! i ! (length (ritz_vec st ! i) - 1)"
      by (rule last_conv_nth)
    also have "length (ritz_vec st ! i) - 1 = nat (ncv st - 1)"
      using l by linarith
    finally show ?thesis .
  qed
  have nth: "?conv ! i = (cmod (ritz_vec st ! i ! nat (ncv st - 1)) * vec_norm (fac_f st)
                 < tol * max (prec st) (cmod (ritz_val st ! i)))" if "i < ?n" for i
  proof -
    have "?conv ! i = (cmod (last (ritz_vec st ! i)) * vec_norm (fac_f st)
                 < tol * max (cmod (ritz_val st ! i)) (prec st))"
      using that assms(1,2) by simp
    then show ?thesis
      by (simp only: bottom [OF that] max.commute [of "prec st"])
  qed
  have count: "length (filter id ?conv) = card {i. i < ?n \<and> ?conv ! i}"
    by (simp only: length_filter_conv_card len id_apply)
  show ?thesis
    unfolding res fst_conv snd_conv
    using len nth count by simp
qed

(* C10 *)

theorem num_converged_criterion_witness:
  "snd (num_converged example_retrieved (1 / 10000000000)) = 2 \<and>
   card {i. i < 2 \<and> ritz_conv (fst (num_converged example_retrieved (1 / 10000000000))) ! i} = 2"
proof -
  have h: "int (length (ritz_vec example_retrieved)) = nev example_retrieved"
    "nev example_retrieved \<le> int (length (ritz_val example_retrieved))"
    "\<forall>c \<in> set (ritz_vec example_retrieved). int (length c) = ncv example_retrieved"
    "0 < ncv example_retrieved"
    by (simp_all add: example_retrieved_def example_factorized_def)
  have n: "nat (nev example_retrieved) = 2"
    by (simp add: example_retrieved_def example_factorized_def)
  from num_converged_criterion [OF h, of "1 / 10000000000"]
  have "snd (num_converged example_retrieved (1 / 10000000000)) =
          int (card {i. i < 2 \<and>
             ritz_conv (fst (num_converged example_retrieved (1 / 10000000000))) ! i})"
    unfolding n by blast
  then show ?thesis
    by (simp add: example_num_converged)
qed

subsection \<open>The Arnoldi extension\<close>







subsection \<open>The main loop without iterations\<close>

lemma sort_ritzpair_virtual_nev: "nev (sort_ritzpair_virtual cls st) = nev st"
  by (cases cls) (simp_all add: sort_ritzpair_fields real_shift_sort_ritzpair_def Let_def)

lemma compute_without_iterations:
  "\<exists>st'. compute be cls nconv0 0 tol st = Inr (st', min (nev st) nconv0)"
proof -
  let ?st2 = "retrieve_ritzpair be (factorize_from (perform_op be) st 1 (ncv st) (fac_f st))"
  have loop: "compute_loop be 0 tol 0 nconv0 ?st2 = Inr (?st2, 0, nconv0)"
    by (subst compute_loop.simps) simp
  have "nev ?st2 = nev st"
    using factorize_from_ritz [of st "perform_op be" 1 "ncv st" "fac_f st"]
    by (simp add: retrieve_ritzpair_dims same_ritz_def)
  then show ?thesis
    by (simp add: compute_def Let_def loop sort_ritzpair_virtual_nev)
qed

text \<open>With at least one iteration the variable is assigned before it is read.\<close>

lemma compute_loop_assigns_nconv:
  assumes "0 < maxit"
  shows "compute_loop be maxit tol 0 a st = compute_loop be maxit tol 0 b st"
  using assms
  by (simp add: compute_loop.simps [of be maxit tol 0 a st]
        compute_loop.simps [of be maxit tol 0 b st])

lemma compute_with_iterations:
  assumes "0 < maxit"
  shows "compute be cls a maxit tol st = compute be cls b maxit tol st"
  unfolding compute_def Let_def
  by (simp only: compute_loop_assigns_nconv [OF assms, of be tol a _ b])

text \<open>
  Claim C10 fails on the code. With \<open>maxit = 0\<close> the loop body never runs, the local
  variable \<^verbatim>\<open>nconv\<close> is never assigned, and \<^verbatim>\<open>compute\<close> returns the minimum of \<open>nev\<close> and
  the value \<open>nconv0\<close> the variable happens to hold: the result depends on it, as on the
  example solver, where the values 0 and 7 give the results 0 and 2.
\<close>

theorem compute_maxit_zero_returns_uninitialized:
  "(\<exists>st'. compute be cls nconv0 0 tol st = Inr (st', min (nev st) nconv0)) \<and>
   (\<exists>s1 s2. compute example_backend GenEigsSolver 0 0 (1 / 10000000000) example_solver = Inr (s1, 0) \<and>
            compute example_backend GenEigsSolver 7 0 (1 / 10000000000) example_solver = Inr (s2, 2))"
proof -
  have n: "nev example_solver = 2" by (simp add: example_solver_def)
  from compute_without_iterations [of example_backend GenEigsSolver 0 "1 / 10000000000" example_solver]
  obtain s1 where "compute example_backend GenEigsSolver 0 0 (1 / 10000000000) example_solver = Inr (s1, 0)"
    by (auto simp: n)
  moreover
  from compute_without_iterations [of example_backend GenEigsSolver 7 "1 / 10000000000" example_solver]
  obtain s2 where "compute example_backend GenEigsSolver 7 0 (1 / 10000000000) example_solver = Inr (s2, 2)"
    by (auto simp: n)
  ultimately show ?thesis
    using compute_without_iterations [of be cls nconv0 tol st] by blast
qed

subsection \<open>The random initial residual\<close>

text \<open>
  Claim C8 fails on the code. The library draws the coefficients from \<open>[-1, 1]\<close> and
  \<^verbatim>\<open>init()\<close> subtracts \<open>0.5\<close>: a drawn coefficient \<open>-1\<close> gives the coefficient \<open>-1.5\<close>,
  outside \<open>[-0.5, 0.5]\<close>. The residual lies in \<open>[-1.5, 0.5]\<close>.
\<close>

theorem init_random_resid_out_of_range:
  "library_random 2 [- 1, 1 / 2] \<and>
   random_init_resid [- 1, 1 / 2] = [- (3 / 2), 0] \<and>
   \<not> list_all (\<lambda>x. - (1 / 2) \<le> x \<and> x \<le> 1 / 2) (random_init_resid [- 1, 1 / 2])"
  by (simp add: library_random_def random_init_resid_def)

lemma random_init_resid_range:
  assumes "library_random n rnd"
  shows "list_all (\<lambda>x. - (3 / 2) \<le> x \<and> x \<le> 1 / 2) (random_init_resid rnd)"
  using assms by (auto simp: library_random_def random_init_resid_def list_all_iff)

(* C9 *)

subsection \<open>The conjugate-pair test of the restart\<close>

lemma unpaired_at_0: "complex_and_conj unpaired_example 0 = Inr False"
  by (simp add: complex_and_conj_def vec_at_def unpaired_example_def companion_factorized_def
        is_complex_def is_conj_def cmod_def)

lemma unpaired_at_1: "complex_and_conj unpaired_example 1 = Inr True"
  by (simp add: complex_and_conj_def vec_at_def unpaired_example_def companion_factorized_def
        is_complex_def is_conj_def cmod_def)

lemma unpaired_at_3: "complex_and_conj unpaired_example 3 = Inl IndexOutOfRange"
  by (simp add: complex_and_conj_def vec_at_def unpaired_example_def companion_factorized_def
        is_complex_def is_conj_def cmod_def)

text \<open>
  The example is the order into which the selection rule of the largest real part sorts
  the eigenvalues \<open>1 \<plusminus> i\<close>, \<open>1 \<plusminus> 2i\<close> of a real matrix.
\<close>

lemma unpaired_example_order:
  "map fst (std_sort largest_real_comp
      [(Complex 1 1, 0), (Complex 1 (- 1), 1), (Complex 1 2, 2), (Complex 1 (- 2), 3)])
     = ritz_val unpaired_example"
  by (simp add: std_sort_def largest_real_comp_def unpaired_example_def)

text \<open>
  The run that produces the example. The constructor accepts \<open>n = 5\<close>, \<open>nev = 1\<close>,
  \<open>ncv = 4\<close>, and \<^verbatim>\<open>init\<close> from the first unit vector gives \<open>companion_solver\<close>.
\<close>

lemma companion_apply:
  "mat_vec companion_op [a, b, c, d, e]
     = [- 10 * d, a + 14 * d, b - 11 * d, c + 4 * d, d]"
  by (simp add: mat_vec_def mat_rows_def companion_op_def upt_rec)

lemma companion_init:
  "\<exists>st0. new_solver (1 / 10000000000) 5 1 4 = Inr st0 \<and>
         init companion_backend st0 [1, 0, 0, 0, 0] = Inr companion_solver"
proof -
  have n: "vec_norm [1, 0, 0, 0, 0] = 1" by (simp add: vec_norm_def dot_def)
  have r: "replicate 5 x = [x, x, x, x, x]" "replicate 4 x = [x, x, x, x]" for x :: 'a
    by (simp_all add: eval_nat_numeral)
  show ?thesis
    by (simp add: new_solver_def init_def Let_def n r companion_backend_def companion_solver_def
          companion_apply dot_def mat_put_def mat_get_def vec_sub_def vec_scale_def)
qed

text \<open>The eigenvalue routine of the run returns eigenpairs of the companion matrix.\<close>

lemma companion_eigenpairs:
  "map (\<lambda>y. map (\<lambda>i. sum_list (map2 (\<lambda>c yj. complex_of_real (c ! i) * yj)
                                    (fac_H companion_factorized) y)) [0..<4])
       companion_evecs
     = map2 (\<lambda>l y. map ((*) l) y) companion_evals companion_evecs"
  by (simp add: companion_factorized_def companion_evecs_def companion_evals_def upt_rec
        complex_eq_iff)

lemma companion_zero:
  "block_setZero (block_setZero [[0, 0, 0, 0], [0, 0, 0, 0], [0, 0, 0, 0], [0, 0, 0, 0]] 0 1 4 3)
     1 0 3 1 = [[0, 0, 0, 0], [0, 0, 0, 0], [0, 0, 0, 0], [0, 0, 0, 0]]"
  by (simp add: block_setZero_def upto_rec1 mat_put_def)

lemma companion_step1:
  "factorize_step (mat_vec companion_op) companion_solver 1
   = companion_solver\<lparr>nmatop := 2,
       fac_V := [[1, 0, 0, 0, 0], [0, 1, 0, 0, 0], [0, 0, 0, 0, 0], [0, 0, 0, 0, 0]],
       fac_H := [[0, 1, 0, 0], [0, 0, 0, 0], [0, 0, 0, 0], [0, 0, 0, 0]],
       fac_f := [0, 0, 1, 0, 0]\<rparr>"
  by (simp add: factorize_step_def Let_def companion_solver_def vec_norm_def dot_def
        block_setZero_def upto_rec1 mat_put_def companion_apply tmat_vec_def vec_sub_def
        mat_vec_def mat_rows_def upt_rec companion_op_def)

lemma companion_step2:
  "factorize_step (mat_vec companion_op)
     (companion_solver\<lparr>nmatop := 2,
       fac_V := [[1, 0, 0, 0, 0], [0, 1, 0, 0, 0], [0, 0, 0, 0, 0], [0, 0, 0, 0, 0]],
       fac_H := [[0, 1, 0, 0], [0, 0, 0, 0], [0, 0, 0, 0], [0, 0, 0, 0]],
       fac_f := [0, 0, 1, 0, 0]\<rparr>) 2
   = companion_solver\<lparr>nmatop := 3,
       fac_V := [[1, 0, 0, 0, 0], [0, 1, 0, 0, 0], [0, 0, 1, 0, 0], [0, 0, 0, 0, 0]],
       fac_H := [[0, 1, 0, 0], [0, 0, 1, 0], [0, 0, 0, 0], [0, 0, 0, 0]],
       fac_f := [0, 0, 0, 1, 0]\<rparr>"
  by (simp add: factorize_step_def Let_def companion_solver_def vec_norm_def dot_def
        block_setZero_def upto_rec1 mat_put_def companion_apply tmat_vec_def vec_sub_def
        mat_vec_def mat_rows_def upt_rec companion_op_def)

lemma companion_step3:
  "factorize_step (mat_vec companion_op)
     (companion_solver\<lparr>nmatop := 3,
       fac_V := [[1, 0, 0, 0, 0], [0, 1, 0, 0, 0], [0, 0, 1, 0, 0], [0, 0, 0, 0, 0]],
       fac_H := [[0, 1, 0, 0], [0, 0, 1, 0], [0, 0, 0, 0], [0, 0, 0, 0]],
       fac_f := [0, 0, 0, 1, 0]\<rparr>) 3
   = companion_factorized"
  by (simp add: factorize_step_def Let_def companion_solver_def companion_factorized_def
        vec_norm_def dot_def block_setZero_def upto_rec1 mat_put_def companion_apply
        tmat_vec_def vec_sub_def mat_vec_def mat_rows_def upt_rec companion_op_def)

lemma companion_factorize:
  "factorize_from (perform_op companion_backend) companion_solver 1 (ncv companion_solver)
     (fac_f companion_solver) = companion_factorized"
proof -
  have a: "ncv companion_solver = 4" "fac_f companion_solver = [0, 1, 0, 0, 0]"
    "fac_H companion_solver = [[0, 0, 0, 0], [0, 0, 0, 0], [0, 0, 0, 0], [0, 0, 0, 0]]"
    "perform_op companion_backend = mat_vec companion_op"
    by (simp_all add: companion_solver_def companion_backend_def)
  have l: "[1..4 - 1] = [1, 2, 3::int]" by (simp add: upto_rec1)
  have z: "block_setZero
             (block_setZero [[0, 0, 0, 0], [0, 0, 0, 0], [0, 0, 0, 0], [0, 0, 0, 0]] 0 1 4 (4 - 1))
             1 0 (4 - 1) 1 = [[0, 0, 0, 0], [0, 0, 0, 0], [0, 0, 0, 0], [0, 0, 0, 0]]"
    using companion_zero by simp
  have same: "companion_solver\<lparr>fac_H := [[0, 0, 0, 0], [0, 0, 0, 0], [0, 0, 0, 0], [0, 0, 0, 0]],
                fac_f := [0, 1, 0, 0, 0]\<rparr> = companion_solver"
    by (simp add: companion_solver_def)
  show ?thesis
    unfolding factorize_from_def a Let_def z l
    by (simp add: same companion_step1 companion_step2 companion_step3)
qed

lemma companion_sort:
  "std_sort largest_real_comp
      [(Complex 1 1, 0), (Complex 1 (- 1), 1), (Complex 1 2, 2), (Complex 1 (- 2), 3::int)]
     = [(Complex 1 2, 2), (Complex 1 1, 0), (Complex 1 (- 1), 1), (Complex 1 (- 2), 3)]"
  by (simp add: std_sort_def largest_real_comp_def)

lemma companion_retrieve:
  "retrieve_ritzpair companion_backend companion_factorized = unpaired_example"
  by (simp add: retrieve_ritzpair_def companion_backend_def companion_factorized_def
        companion_evals_def companion_evecs_def unpaired_example_def Let_def upt_rec
        companion_sort assign_head_def)

text \<open>
  No Ritz value has converged: the residual estimate of the wanted one is
  \<open>|1| \<parallel>f\<parallel> = 1\<close>, against the threshold \<open>10\<^sup>-\<^sup>1\<^sup>0 \<surd>5\<close>.
\<close>

lemma companion_num_converged:
  "num_converged unpaired_example (1 / 10000000000) = (unpaired_example, 0)"
proof -
  have "sqrt 5 \<le> sqrt (5 * 5)" by (rule real_sqrt_le_mono) simp
  then have s: "sqrt 5 \<le> 5" by simp
  have m: "cmod (Complex 1 2) = sqrt 5" by (simp add: cmod_def)
  have t: "\<not> 1 < 1 / 10000000000 * max (sqrt 5) (1 / 10000000000)"
    using s by (simp add: max_def)
  show ?thesis
    using t
    by (simp add: num_converged_def unpaired_example_def companion_factorized_def Let_def
          vec_norm_def dot_def m)
qed

text \<open>
  Claim C9 fails on the code. On the four Ritz values \<open>1 + 2i, 1 + i, 1 - i, 1 - 2i\<close> and
  no converged value, \<^verbatim>\<open>nev_adjusted\<close> returns \<open>3 = ncv - 1\<close> after its final bump over
  the inner pair, and \<^verbatim>\<open>restart(3)\<close> finds the complex value \<open>1 - 2i\<close> at the last index
  and reads \<^verbatim>\<open>ritz_val[4]\<close>, past the end, whatever the QR routines are. The state is
  reached by \<^verbatim>\<open>compute\<close> itself: with the default arguments, the run on the bordered
  companion matrix ends in that read during its first iteration, whatever the
  uninitialised \<^verbatim>\<open>nconv\<close> held.
\<close>

theorem restart_reads_past_last_ritz_value:
  "nev_adjusted unpaired_example 0 = Inr 3 \<and>
   restart be unpaired_example 3 = Inl IndexOutOfRange \<and>
   compute companion_backend GenEigsSolver nconv0 1000 (1 / 10000000000) companion_solver
     = Inl IndexOutOfRange"
proof -
  have a: "nev unpaired_example = 1" "ncv unpaired_example = 4"
    by (simp_all add: unpaired_example_def companion_factorized_def)
  have adj: "nev_adjusted unpaired_example 0 = Inr 3"
    unfolding nev_adjusted_def a
    by (simp add: unpaired_at_0 unpaired_at_1 cpp_div_def)
  have "restart_loop b unpaired_example 3 VHe = Inl IndexOutOfRange" for b VHe
    by (subst restart_loop.simps) (simp add: a unpaired_at_3)
  then have res: "restart b unpaired_example 3 = Inl IndexOutOfRange" for b
    by (simp add: restart_def a Let_def)
  have loop: "compute_loop companion_backend 1000 (1 / 10000000000) 0 nconv0 unpaired_example
                = Inl IndexOutOfRange"
    by (subst compute_loop.simps) (simp add: companion_num_converged a adj res)
  have run: "compute companion_backend GenEigsSolver nconv0 1000 (1 / 10000000000)
               companion_solver = Inl IndexOutOfRange"
    unfolding compute_def companion_factorize Let_def companion_retrieve loop by simp
  from adj res run show ?thesis by simp
qed

subsection \<open>The double-shift sweep at a zero pivot\<close>

text \<open>Reflectors of the two examples, and what they do to a matrix of order three.\<close>

lemma sqrt2_sq: "sqrt 2 * (sqrt 2 * x) = 2 * x" "sqrt 2 * (x * sqrt 2) = 2 * x" "x * sqrt 2 * sqrt 2 = 2 * x"
  by (simp_all add: algebra_simps)

lemma reflector_001:
  assumes "qr_prec q < 1"
  shows "compute_reflector q 0 0 1 ind = q\<lparr>ref_u := (ref_u q)[nat ind := [0, 0, 1]]\<rparr>"
  using assms by (simp add: compute_reflector_def Let_def)

lemma reflector_100:
  assumes "qr_prec q < 1"
  shows "compute_reflector q 1 0 0 ind = q\<lparr>ref_u := (ref_u q)[nat ind := [1, 0, 0]]\<rparr>"
  using assms by (simp add: compute_reflector_def Let_def)

lemma reflector_000:
  assumes "0 \<le> qr_prec q"
  shows "compute_reflector q 0 0 0 ind = q\<lparr>ref_u := (ref_u q)[nat ind := [0, 0, 0]]\<rparr>"
  using assms by (simp add: compute_reflector_def Let_def)

lemma reflector_011:
  assumes "qr_prec q < 1"
  shows "compute_reflector q 0 1 1 ind
           = q\<lparr>ref_u := (ref_u q)[nat ind := [0, 1 / sqrt 2, 1 / sqrt 2]]\<rparr>"
proof -
  have "1 < sqrt 2" by simp
  with assms have "\<not> sqrt 2 \<le> qr_prec q" by linarith
  then show ?thesis
    by (simp add: compute_reflector_def Let_def)
qed

lemma reflector_0m10:
  assumes "qr_prec q < 1"
  shows "compute_reflector q 0 (- 1) 0 ind = q\<lparr>ref_u := (ref_u q)[nat ind := [0, - 1, 0]]\<rparr>"
  using assms by (simp add: compute_reflector_def Let_def)

lemma apply_PX_001:
  assumes "qr_prec q < 1" "ref_u q ! 0 = [0, 0, 1]"
  shows "apply_PX q [[a0, a1, a2], [b0, b1, b2], [c0, c1, c2]] (0, 0, 3, 3) 0
           = [[a0, a1, - a2], [b0, b1, - b2], [c0, c1, - c2]]"
  using assms
  by (simp add: apply_PX_def Let_def mat_get_def block_rows_def block_cols_def block_get_def
        block_put_def mat_put_def upto_rec1 sqrt2_sq)

lemma apply_XP_001:
  assumes "qr_prec q < 1" "ref_u q ! 0 = [0, 0, 1]"
  shows "apply_XP q [[a0, a1, a2], [b0, b1, b2], [c0, c1, c2]] (0, 0, 3, 3) 0
           = [[a0, a1, a2], [b0, b1, b2], [- c0, - c1, - c2]]"
  using assms
  by (simp add: apply_XP_def Let_def mat_get_def block_rows_def block_cols_def block_get_def
        block_put_def mat_put_def upto_rec1 sqrt2_sq)

lemma apply_PX_100:
  assumes "qr_prec q < 1" "ref_u q ! 1 = [1, 0, 0]"
  shows "apply_PX q [[a0, a1, a2], [b0, b1, b2], [c0, c1, c2]] (1, 0, 2, 3) 1
           = [[a0, - a1, a2], [b0, - b1, b2], [c0, - c1, c2]]"
  using assms
  by (simp add: apply_PX_def Let_def mat_get_def block_rows_def block_cols_def block_get_def
        block_put_def mat_put_def upto_rec1 sqrt2_sq)

lemma apply_XP_100:
  assumes "qr_prec q < 1" "ref_u q ! 1 = [1, 0, 0]"
  shows "apply_XP q [[a0, a1, a2], [b0, b1, b2], [c0, c1, c2]] (0, 1, 3, 2) 1
           = [[a0, a1, a2], [- b0, - b1, - b2], [c0, c1, c2]]"
  using assms
  by (simp add: apply_XP_def Let_def mat_get_def block_rows_def block_cols_def block_get_def
        block_put_def mat_put_def upto_rec1 sqrt2_sq)

lemma apply_PX_011:
  assumes "qr_prec q < 1" "ref_u q ! 0 = [0, 1 / sqrt 2, 1 / sqrt 2]"
  shows "apply_PX q [[a0, a1, a2], [b0, b1, b2], [c0, c1, c2]] (0, 0, 3, 3) 0
           = [[a0, - a2, - a1], [b0, - b2, - b1], [c0, - c2, - c1]]"
  using assms
  by (simp add: apply_PX_def Let_def mat_get_def block_rows_def block_cols_def block_get_def
        block_put_def mat_put_def upto_rec1)

lemma apply_XP_011:
  assumes "qr_prec q < 1" "ref_u q ! 0 = [0, 1 / sqrt 2, 1 / sqrt 2]"
  shows "apply_XP q [[a0, a1, a2], [b0, b1, b2], [c0, c1, c2]] (0, 0, 3, 3) 0
           = [[a0, a1, a2], [- c0, - c1, - c2], [- b0, - b1, - b2]]"
  using assms
  by (simp add: apply_XP_def Let_def mat_get_def block_rows_def block_cols_def block_get_def
        block_put_def mat_put_def upto_rec1)

lemma apply_PX_0m10:
  assumes "qr_prec q < 1" "ref_u q ! 1 = [0, - 1, 0]"
  shows "apply_PX q [[a0, a1, a2], [b0, b1, b2], [c0, c1, c2]] (1, 0, 2, 3) 1
           = [[a0, a1, - a2], [b0, b1, - b2], [c0, c1, - c2]]"
  using assms
  by (simp add: apply_PX_def Let_def mat_get_def block_rows_def block_cols_def block_get_def
        block_put_def mat_put_def upto_rec1 sqrt2_sq)

lemma apply_XP_0m10:
  assumes "qr_prec q < 1" "ref_u q ! 1 = [0, - 1, 0]"
  shows "apply_XP q [[a0, a1, a2], [b0, b1, b2], [c0, c1, c2]] (0, 1, 3, 2) 1
           = [[a0, a1, a2], [b0, b1, b2], [- c0, - c1, - c2]]"
  using assms
  by (simp add: apply_XP_def Let_def mat_get_def block_rows_def block_cols_def block_get_def
        block_put_def mat_put_def upto_rec1 sqrt2_sq)

text \<open>The sweep on the first example.\<close>

lemma hessenberg_part_pivot_example: "hessenberg_part pivot_example = pivot_example"
  by (simp add: hessenberg_part_def pivot_example_def mat_rows_def upt_rec)

lemma pivot_first:
  assumes "0 \<le> eps" "eps < 1"
  shows "first_reflector (0, 0, 3, 3) 0 (pivot_start eps)
           = (pivot_start eps)\<lparr>mat_H := [[0, 1, 0], [- 1, 0, - 1], [- 1, - 2, 3]],
                ref_u := [[0, 0, 1], [0, 0, 0], [0, 0, 0]]\<rparr>"
  using assms
  by (simp add: first_reflector_def Let_def pivot_start_def pivot_example_def block_rows_def
        block_cols_def sub_block_def block_get_def mat_get_def reflector_001 apply_PX_001
        apply_XP_001)

lemma pivot_last:
  assumes "0 \<le> eps" "eps < 1"
  shows "last_reflector (0, 0, 3, 3) 0
           ((pivot_start eps)\<lparr>mat_H := [[0, 1, 0], [- 1, 0, - 1], [- 1, - 2, 3]],
                ref_u := [[0, 0, 1], [0, 0, 0], [0, 0, 0]]\<rparr>)
           = (pivot_start eps)\<lparr>mat_H := pivot_result, ref_u := [[0, 0, 1], [1, 0, 0], [0, 0, 0]]\<rparr>"
  using assms
  by (simp add: last_reflector_def Let_def pivot_start_def pivot_result_def block_rows_def
        block_cols_def sub_block_def block_get_def mat_get_def reflector_100 reflector_000
        apply_PX_100 apply_XP_100)

lemma pivot_block:
  assumes "0 \<le> eps" "eps < 1"
  shows "compute_reflectors_from_block (pivot_start eps) (0, 0, 3, 3) 0
           = (pivot_start eps)\<lparr>mat_H := pivot_result, ref_u := [[0, 0, 1], [1, 0, 0], [0, 0, 0]]\<rparr>"
  using assms
  by (simp add: compute_reflectors_from_block_def block_rows_def pivot_first pivot_last)

lemma pivot_compute:
  assumes "0 \<le> eps" "eps < 1"
  shows "qr_compute (new_double_shift_qr eps) pivot_example 0 1
           = Inr ((pivot_start eps)\<lparr>mat_H := pivot_result,
                    ref_u := [[0, 0, 1], [1, 0, 0], [0, 0, 0]], computed := True\<rparr>)"
proof -
  have dims: "mat_rows pivot_example = 3" "length pivot_example = 3"
    by (simp_all add: mat_rows_def pivot_example_def)
  have start: "(new_double_shift_qr eps)\<lparr>qr_n := 3, mat_H := pivot_example, shift_s := 0,
      shift_t := 1, ref_u := replicate 3 [0, 0, 0]\<rparr> = pivot_start eps"
    by (simp add: new_double_shift_qr_def pivot_start_def eval_nat_numeral)
  have defl: "deflate_step 1 (pivot_start eps, [0]) = (pivot_start eps, [0])"
    using assms
    by (simp add: deflate_step_def pivot_start_def pivot_example_def mat_get_def)
  have blk: "block_step (0, 3) (pivot_start eps)
     = (pivot_start eps)\<lparr>mat_H := pivot_result, ref_u := [[0, 0, 1], [1, 0, 0], [0, 0, 0]]\<rparr>"
    using assms by (simp add: block_step_def Let_def pivot_block) (simp add: pivot_start_def)
  show ?thesis
    unfolding qr_compute_def dims hessenberg_part_pivot_example
    by (simp add: start defl blk)
qed

text \<open>
  No QR factorization of \<open>H\<^sup>2 + I\<close> gives the matrix the sweep returns: the first column of
  \<open>H\<^sup>2 + I\<close> is the third unit vector, so the first column of every orthogonal factor \<open>Q\<close>
  is plus or minus that vector and the coefficient \<open>(0, 0)\<close> of \<open>Q\<^sup>T H Q\<close> is \<open>H(2, 2) = 3\<close>,
  where the sweep leaves \<open>H(0, 0) = 0\<close>.
\<close>

lemma list3: "length xs = 3 \<Longrightarrow> \<exists>a b c. xs = [a, b, c]"
  by (cases xs; cases "tl xs"; cases "tl (tl xs)") auto

lemma square_mat_3:
  assumes "square_mat 3 M"
  shows "\<exists>a0 a1 a2 b0 b1 b2 c0 c1 c2. M = [[a0, a1, a2], [b0, b1, b2], [c0, c1, c2]]"
proof -
  from assms obtain x y z where M: "M = [x, y, z]"
    using list3 [of M] by (auto simp: square_mat_def)
  with assms have "length x = 3" "length y = 3" "length z = 3"
    by (simp_all add: square_mat_def)
  then obtain a0 a1 a2 b0 b1 b2 c0 c1 c2 where
    "x = [a0, a1, a2]" "y = [b0, b1, b2]" "z = [c0, c1, c2]"
    using list3 [of x] list3 [of y] list3 [of z] by auto
  with M show ?thesis by blast
qed

lemma pivot_polynomial:
  "shift_polynomial pivot_example 0 1 = [[0, 0, 1], [1, 2, 3], [1, 7, 12]]"
  by (simp add: shift_polynomial_def pivot_example_def mat_mul_def mat_vec_def mat_rows_def
        mat_add_def mat_scale_def identity_mat_def upt_rec)

lemma pivot_not_double_shift_step: "\<not> double_shift_step 3 pivot_example 0 1 pivot_result"
proof
  assume "double_shift_step 3 pivot_example 0 1 pivot_result"
  then obtain Q R where
    orth: "orthogonal_mat 3 Q" and tri: "upper_triangular 3 R" and
    qr: "mat_mul Q R = shift_polynomial pivot_example 0 1" and
    res: "pivot_result = mat_mul (mat_transpose Q) (mat_mul pivot_example Q)"
    by (auto simp: double_shift_step_def)
  from orth obtain a0 a1 a2 b0 b1 b2 c0 c1 c2 where
    Q: "Q = [[a0, a1, a2], [b0, b1, b2], [c0, c1, c2]]"
    using square_mat_3 [of Q] by (auto simp: orthogonal_mat_def)
  from tri obtain r00 r10 r20 r01 r11 r21 r02 r12 r22 where
    R: "R = [[r00, r10, r20], [r01, r11, r21], [r02, r12, r22]]"
    using square_mat_3 [of R] by (auto simp: upper_triangular_def)
  from tri have below: "\<forall>j < 3. \<forall>i < 3. j < i \<longrightarrow> R ! j ! i = 0"
    by (simp add: upper_triangular_def)
  have z: "r10 = 0" "r20 = 0"
    using below [rule_format, of 0 1] below [rule_format, of 0 2] by (simp_all add: R)
  from qr have col: "a0 * r00 = 0" "a1 * r00 = 0" "a2 * r00 = 1"
    by (simp_all add: pivot_polynomial Q R z mat_mul_def mat_vec_def mat_rows_def upt_rec)
  then have a: "a0 = 0" "a1 = 0" by auto
  from orth have "a2 * a2 = 1"
    by (simp add: orthogonal_mat_def Q a mat_mul_def mat_vec_def mat_rows_def mat_transpose_def
          identity_mat_def upt_rec)
  moreover from res have "0 = 3 * (a2 * a2)"
    by (simp add: pivot_result_def pivot_example_def Q a mat_mul_def mat_vec_def mat_rows_def
          mat_transpose_def upt_rec)
  ultimately show False by simp
qed

lemma pivot_example_hessenberg: "upper_hessenberg 3 pivot_example \<and> unreduced 3 pivot_example"
proof -
  have "j + 1 < 3 \<Longrightarrow> j = 0 \<or> j = 1" for j :: nat by auto
  then show ?thesis
    by (auto simp: upper_hessenberg_def unreduced_def square_mat_def pivot_example_def
          less_Suc_eq numeral_3_eq_3)
qed

text \<open>
  Claim C1 fails on the code. For the upper-Hessenberg matrix with rows \<open>(0, -1, 1)\<close>,
  \<open>(1, 0, 2)\<close>, \<open>(0, 1, 3)\<close>, whose subdiagonal is nonzero, and the shift \<open>\<mu> = i\<close>
  (\<open>s = \<mu> + \<mu>\<^sup>* = 0\<close>, \<open>t = \<mu> \<mu>\<^sup>* = 1\<close>), \<^verbatim>\<open>compute\<close> succeeds and \<^verbatim>\<open>matrix_QtHQ\<close> returns a
  matrix that is \<open>Q\<^sup>T H Q\<close> for no orthogonal factor \<open>Q\<close> of a QR factorization of
  \<open>H\<^sup>2 - s H + t I\<close>, for every precision \<open>0 \<le> eps < 1\<close> of the near-zero tests. The first
  reflector is built from \<open>(x, y, z) = (0, 0, 1)\<close>: the sign factor
  \<^verbatim>\<open>(x1 < 0) - (x1 > 0)\<close> is zero at \<open>x1 = 0\<close>, and the reflector does not map the vector to a
  multiple of the first unit vector.
\<close>

theorem double_shift_zero_pivot:
  assumes "0 \<le> eps" "eps < 1"
  shows "upper_hessenberg 3 pivot_example \<and> unreduced 3 pivot_example \<and>
         complex_of_real 0 = \<i> + cnj \<i> \<and> complex_of_real 1 = \<i> * cnj \<i> \<and>
         (\<exists>q. qr_compute (new_double_shift_qr eps) pivot_example 0 1 = Inr q \<and>
              matrix_QtHQ q = Inr pivot_result) \<and>
         \<not> double_shift_step 3 pivot_example 0 1 pivot_result"
  using pivot_example_hessenberg pivot_compute [OF assms] pivot_not_double_shift_step
  by (simp add: matrix_QtHQ_def)

theorem double_shift_zero_pivot_witness:
  "\<exists>q. qr_compute (new_double_shift_qr (1 / 10 ^ 14)) pivot_example 0 1 = Inr q \<and>
       matrix_QtHQ q = Inr pivot_result \<and>
       \<not> double_shift_step 3 pivot_example 0 1 pivot_result"
  using double_shift_zero_pivot [of "1 / 10 ^ 14"] by simp

text \<open>
  The same zero pivot on the second example: the sweep of \<^verbatim>\<open>DoubleShiftQR\<close> returns a matrix
  with a nonzero coefficient \<open>(2, 0)\<close>, which is not upper-Hessenberg. (\<^verbatim>\<open>restart\<close> does not
  call this class; its sweeps go through the QR routines it is given.)
\<close>

lemma hessenberg_part_bulge_example: "hessenberg_part bulge_example = bulge_example"
  by (simp add: hessenberg_part_def bulge_example_def mat_rows_def upt_rec)

lemma bulge_first:
  assumes "0 \<le> eps" "eps < 1"
  shows "first_reflector (0, 0, 3, 3) 0 (bulge_start eps)
           = (bulge_start eps)\<lparr>mat_H := [[0, 0, - 1], [0, 0, 0], [1, 1, 1]],
                ref_u := [[0, 1 / sqrt 2, 1 / sqrt 2], [0, 0, 0], [0, 0, 0]]\<rparr>"
  using assms
  by (simp add: first_reflector_def Let_def bulge_start_def bulge_example_def block_rows_def
        block_cols_def sub_block_def block_get_def mat_get_def reflector_011 apply_PX_011
        apply_XP_011)

lemma bulge_last:
  assumes "0 \<le> eps" "eps < 1"
  shows "last_reflector (0, 0, 3, 3) 0
           ((bulge_start eps)\<lparr>mat_H := [[0, 0, - 1], [0, 0, 0], [1, 1, 1]],
                ref_u := [[0, 1 / sqrt 2, 1 / sqrt 2], [0, 0, 0], [0, 0, 0]]\<rparr>)
           = (bulge_start eps)\<lparr>mat_H := bulge_result,
                ref_u := [[0, 1 / sqrt 2, 1 / sqrt 2], [0, - 1, 0], [0, 0, 0]]\<rparr>"
  using assms
  by (simp add: last_reflector_def Let_def bulge_start_def bulge_result_def block_rows_def
        block_cols_def sub_block_def block_get_def mat_get_def reflector_0m10 reflector_000
        apply_PX_0m10 apply_XP_0m10)

lemma bulge_compute:
  assumes "0 \<le> eps" "eps < 1"
  shows "qr_compute (new_double_shift_qr eps) bulge_example 0 1
           = Inr ((bulge_start eps)\<lparr>mat_H := bulge_result,
                    ref_u := [[0, 1 / sqrt 2, 1 / sqrt 2], [0, - 1, 0], [0, 0, 0]],
                    computed := True\<rparr>)"
proof -
  have dims: "mat_rows bulge_example = 3" "length bulge_example = 3"
    by (simp_all add: mat_rows_def bulge_example_def)
  have start: "(new_double_shift_qr eps)\<lparr>qr_n := 3, mat_H := bulge_example, shift_s := 0,
      shift_t := 1, ref_u := replicate 3 [0, 0, 0]\<rparr> = bulge_start eps"
    by (simp add: new_double_shift_qr_def bulge_start_def eval_nat_numeral)
  have defl: "deflate_step 1 (bulge_start eps, [0]) = (bulge_start eps, [0])"
    using assms
    by (simp add: deflate_step_def bulge_start_def bulge_example_def mat_get_def)
  have blk: "block_step (0, 3) (bulge_start eps)
     = (bulge_start eps)\<lparr>mat_H := bulge_result,
          ref_u := [[0, 1 / sqrt 2, 1 / sqrt 2], [0, - 1, 0], [0, 0, 0]]\<rparr>"
    using assms
    by (simp add: block_step_def Let_def compute_reflectors_from_block_def block_rows_def
          bulge_first bulge_last) (simp add: bulge_start_def)
  show ?thesis
    unfolding qr_compute_def dims hessenberg_part_bulge_example
    by (simp add: start defl blk)
qed

lemma double_shift_sweep_leaves_bulge:
  assumes "0 \<le> eps" "eps < 1"
  shows "upper_hessenberg 3 bulge_example \<and> unreduced 3 bulge_example \<and>
         (\<exists>q. qr_compute (new_double_shift_qr eps) bulge_example 0 1 = Inr q \<and>
              matrix_QtHQ q = Inr bulge_result) \<and>
         \<not> upper_hessenberg 3 bulge_result"
proof -
  have small: "j + 1 < 3 \<Longrightarrow> j = 0 \<or> j = 1" for j :: nat by auto
  have h: "upper_hessenberg 3 bulge_example \<and> unreduced 3 bulge_example"
    using small
    by (auto simp: upper_hessenberg_def unreduced_def square_mat_def bulge_example_def
          less_Suc_eq numeral_3_eq_3)
  have "bulge_result ! 0 ! 2 \<noteq> 0" by (simp add: bulge_result_def)
  have n: "\<not> upper_hessenberg 3 bulge_result"
  proof
    assume "upper_hessenberg 3 bulge_result"
    then have "\<forall>j < 3. \<forall>i < 3. j + 1 < i \<longrightarrow> bulge_result ! j ! i = 0"
      by (simp add: upper_hessenberg_def)
    from this [rule_format, of 0 2] have "bulge_result ! 0 ! 2 = 0" by simp
    with \<open>bulge_result ! 0 ! 2 \<noteq> 0\<close> show False by simp
  qed
  show ?thesis
    using h n bulge_compute [OF assms] by (simp add: matrix_QtHQ_def)
qed

end
